theory Spec2Isabelle
  imports Main "HOL-Library.Word"
begin

section \<open>Python values, exceptions and the world\<close>

text \<open>
  Bytes objects are lists of 8-bit words. A Python \<open>str\<close> is represented by the
  sequence of its UTF-8 code units, so \<open>s.encode("utf-8")\<close> is a change of
  representation only. The values that reach the modelled paths are \<open>None\<close>,
  \<open>bytes\<close>, \<open>str\<close> and \<open>dict\<close> (the item list of the dict in insertion order).
\<close>

type_synonym byte = "8 word"
type_synonym bytes = "byte list"

datatype pyval = PNone | PBytes bytes | PStr string | PDict "(pyval \<times> pyval) list"

text \<open>
  The exception classes the modelled paths can raise. \<open>ValueError\<close> is what the
  cipher raises when the MAC check fails; \<open>SystemExit n\<close> is \<open>sys.exit(n)\<close>.
\<close>

datatype py_error =
    FileNotFoundError | EOFError | UnpicklingError | TypeError | ValueError | KeyError
  | SystemExit nat

definition encode_utf8 :: "string \<Rightarrow> bytes" where
  "encode_utf8 s = map of_char s"

definition fsdecode :: "bytes \<Rightarrow> string" where
  "fsdecode b = map (\<lambda>x. char_of (unat x)) b"

text \<open>
  The world: the files that can be read (path to content); for each path the exception
  the operating system raises when the path is opened for writing (a missing directory,
  a directory in the way, no permission), \<open>None\<close> where the file can be created or
  truncated; the passphrases still to be typed at the prompt; what has been printed; the
  tape of the system's random bytes; and a count of the key derivations run so far (an
  observation only; nothing reads it).
\<close>

record world =
  fs :: "string \<rightharpoonup> bytes"
  write_error :: "string \<rightharpoonup> py_error"
  stdin :: "string list"
  stdout :: "string list"
  rng :: "nat \<Rightarrow> byte"
  kdf_calls :: nat

text \<open>
  The third-party functions the program calls (Python's \<open>str\<close> and \<open>pickle\<close>,
  and PyCryptodome's SHA-256, scrypt and AES-GCM) are parameters of the model.
  \<open>gcm_encrypt_and_digest key nonce data\<close> stands for
  \<open>AES.new(key, AES.MODE_GCM, nonce).encrypt_and_digest(data)\<close> and returns
  \<open>(ciphertext, tag)\<close>; \<open>gcm_decrypt_and_verify key nonce ciphertext tag\<close> stands for
  \<open>AES.new(key, AES.MODE_GCM, nonce).decrypt_and_verify(ciphertext, tag)\<close>.
\<close>

record crypto_lib =
  py_str :: "pyval \<Rightarrow> string"
  sha256_hexdigest :: "bytes \<Rightarrow> string"
  scrypt :: "pyval \<Rightarrow> pyval \<Rightarrow> nat \<Rightarrow> nat \<Rightarrow> nat \<Rightarrow> nat \<Rightarrow> py_error + bytes"
  gcm_encrypt_and_digest :: "bytes \<Rightarrow> bytes \<Rightarrow> bytes \<Rightarrow> py_error + (bytes \<times> bytes)"
  gcm_decrypt_and_verify :: "bytes \<Rightarrow> pyval \<Rightarrow> pyval \<Rightarrow> pyval \<Rightarrow> py_error + bytes"
  pickle_dump :: "pyval \<Rightarrow> int \<Rightarrow> bytes"
  pickle_load :: "bytes \<Rightarrow> py_error + pyval"

definition print :: "string \<Rightarrow> world \<Rightarrow> world" where
  "print s w = w\<lparr>stdout := stdout w @ [s]\<rparr>"

definition get_random_bytes :: "nat \<Rightarrow> world \<Rightarrow> bytes \<times> world" where
  "get_random_bytes n w = (map (rng w) [0..<n], w\<lparr>rng := (\<lambda>i. rng w (i + n))\<rparr>)"

definition call_scrypt ::
  "crypto_lib \<Rightarrow> pyval \<Rightarrow> pyval \<Rightarrow> nat \<Rightarrow> nat \<Rightarrow> nat \<Rightarrow> nat \<Rightarrow> world \<Rightarrow> (py_error + bytes) \<times> world" where
  "call_scrypt lib password slt key_len N r p w =
     (scrypt lib password slt key_len N r p, w\<lparr>kdf_calls := Suc (kdf_calls w)\<rparr>)"

definition read_file :: "string \<Rightarrow> world \<Rightarrow> py_error + bytes" where
  "read_file path w = (case fs w path of None \<Rightarrow> Inl FileNotFoundError | Some b \<Rightarrow> Inr b)"

text \<open>
  \<open>open(path, "wb")\<close> followed by \<open>f.write(b)\<close>: the empty path raises
  \<open>FileNotFoundError\<close>, a NUL in the path \<open>ValueError\<close>, and otherwise the operating
  system decides.
\<close>

definition write_file :: "string \<Rightarrow> bytes \<Rightarrow> world \<Rightarrow> py_error + world" where
  "write_file path b w =
     (if path = [] then Inl FileNotFoundError
      else if CHR 0x00 \<in> set path then Inl ValueError
      else (case write_error w path of
              Some e \<Rightarrow> Inl e
            | None \<Rightarrow> Inr (w\<lparr>fs := (fs w)(path \<mapsto> b)\<rparr>)))"

definition can_write :: "world \<Rightarrow> string \<Rightarrow> bool" where
  "can_write w path = (path \<noteq> [] \<and> CHR 0x00 \<notin> set path \<and> write_error w path = None)"

definition getpass_prompt :: "string \<Rightarrow> world \<Rightarrow> (py_error + string) \<times> world" where
  "getpass_prompt prompt w =
     (case stdin w of [] \<Rightarrow> (Inl EOFError, w) | l # ls \<Rightarrow> (Inr l, w\<lparr>stdin := ls\<rparr>))"

section \<open>cryptfile.py\<close>

text \<open>
  Each function keeps its name, prefixed by its class; the leading underscore of
  \<open>Utils._rename\<close> and \<open>Security._kdf_scrypt\<close> is dropped (\<open>Utils_rename\<close>,
  \<open>kdf_scrypt\<close>). A function that reads or changes the world takes it and returns it.
\<close>

subsection \<open>Template.CipherConfig\<close>

record CipherConfig =
  ciphertext :: pyval
  salt :: pyval
  tag :: pyval
  nonce :: pyval
  filename :: pyval

definition CipherConfig_init :: "pyval \<Rightarrow> pyval \<Rightarrow> pyval \<Rightarrow> pyval \<Rightarrow> CipherConfig" where
  "CipherConfig_init c s t n =
     \<lparr>ciphertext = c, salt = s, tag = t, nonce = n, filename = PStr []\<rparr>"

definition CipherConfig_dict :: "CipherConfig \<Rightarrow> (pyval \<times> pyval) list" where
  "CipherConfig_dict cc =
     [(PStr ''ciphertext'', ciphertext cc), (PStr ''salt'', salt cc), (PStr ''tag'', tag cc),
      (PStr ''nonce'', nonce cc), (PStr ''filename'', filename cc)]"

definition required_fields :: "pyval list" where
  "required_fields = [PStr ''ciphertext'', PStr ''salt'', PStr ''tag'', PStr ''nonce'']"

definition accepts_kwargs :: "(pyval \<times> pyval) list \<Rightarrow> bool" where
  "accepts_kwargs kvs =
     (list_all (\<lambda>k. k \<in> set (required_fields @ [PStr ''filename''])) (map fst kvs) \<and>
      list_all (\<lambda>k. k \<in> set (map fst kvs)) required_fields)"

fun the_default :: "'a \<Rightarrow> 'a option \<Rightarrow> 'a" where
  "the_default d None = d"
| "the_default d (Some x) = x"

definition CipherConfig_kwargs :: "pyval \<Rightarrow> py_error + CipherConfig" where
  "CipherConfig_kwargs d =
     (case d of
        PDict kvs \<Rightarrow>
          if accepts_kwargs kvs
          then Inr \<lparr>ciphertext = the_default PNone (map_of kvs (PStr ''ciphertext'')),
                    salt = the_default PNone (map_of kvs (PStr ''salt'')),
                    tag = the_default PNone (map_of kvs (PStr ''tag'')),
                    nonce = the_default PNone (map_of kvs (PStr ''nonce'')),
                    filename = the_default (PStr []) (map_of kvs (PStr ''filename''))\<rparr>
          else Inl TypeError
      | _ \<Rightarrow> Inl TypeError)"

subsection \<open>Utils\<close>

datatype file_data = Raw bytes | Pickled CipherConfig

definition Utils_attrs :: "CipherConfig \<Rightarrow> pyval \<times> pyval \<times> pyval \<times> pyval \<times> pyval" where
  "Utils_attrs cc = (ciphertext cc, salt cc, tag cc, nonce cc, filename cc)"

definition endswith :: "string \<Rightarrow> string \<Rightarrow> bool" where
  "endswith s suf = (length suf \<le> length s \<and> drop (length s - length suf) s = suf)"

definition msg_renamed :: string where
  "msg_renamed = ''[*] It seems you have changed filename after encryption.'' @ [CHR 0x0A]"

definition msg_saved_as :: "string \<Rightarrow> string" where
  "msg_saved_as name = ''[*] Decrypted file will be saved as `'' @ name @ ''`.'' @ [CHR 0x0A]"

definition Utils_rename :: "string \<Rightarrow> world \<Rightarrow> string \<times> world" where
  "Utils_rename file w =
     (if endswith file ''.enc'' then (take (length file - 4) file, w)
      else (file @ ''.cryptfile'',
            print (msg_saved_as (file @ ''.cryptfile'')) (print msg_renamed w)))"

definition Utils_save_cc :: "crypto_lib \<Rightarrow> CipherConfig \<Rightarrow> string \<Rightarrow> world \<Rightarrow> py_error + world" where
  "Utils_save_cc lib data file w =
     write_file (file @ ''.enc'') (pickle_dump lib (PDict (CipherConfig_dict data)) (- 1)) w"

definition Utils_save_file :: "bytes \<Rightarrow> pyval \<Rightarrow> world \<Rightarrow> py_error + world" where
  "Utils_save_file data fname w =
     (case fname of
        PStr p \<Rightarrow> write_file p data w
      | PBytes b \<Rightarrow> write_file (fsdecode b) data w
      | _ \<Rightarrow> Inl TypeError)"

definition Utils_open_file :: "crypto_lib \<Rightarrow> string \<Rightarrow> bool \<Rightarrow> world \<Rightarrow> py_error + file_data" where
  "Utils_open_file lib file pickled w =
     (case read_file file w of
        Inl e \<Rightarrow> Inl e
      | Inr content \<Rightarrow>
          if pickled
          then (case pickle_load lib content of
                  Inl e \<Rightarrow> Inl e
                | Inr data_dict \<Rightarrow>
                    (case CipherConfig_kwargs data_dict of
                       Inl e \<Rightarrow> Inl e
                     | Inr data \<Rightarrow> Inr (Pickled data)))
          else Inr (Raw content))"

subsection \<open>Security\<close>

record Security =
  mp :: bytes
  cost_factor :: nat
  rounds :: nat
  parallel_factor :: nat
  key_length :: nat

definition Security_init :: "bytes \<Rightarrow> Security" where
  "Security_init master_password_hash =
     \<lparr>mp = master_password_hash, cost_factor = 2 ^ 20, rounds = 8, parallel_factor = 1,
      key_length = 32\<rparr>"

definition Security_getpass :: "crypto_lib \<Rightarrow> bool \<Rightarrow> world \<Rightarrow> (py_error + bytes) \<times> world" where
  "Security_getpass lib no_check w =
     (case getpass_prompt ''Enter Password: '' w of
        (Inl e, w1) \<Rightarrow> (Inl e, w1)
      | (Inr s1, w1) \<Rightarrow>
          (let p1 = sha256_hexdigest lib (encode_utf8 s1) in
           if no_check then (Inr (encode_utf8 p1), w1)
           else (case getpass_prompt ''Re-enter Password: '' w1 of
                   (Inl e, w2) \<Rightarrow> (Inl e, w2)
                 | (Inr s2, w2) \<Rightarrow>
                     (let p2 = sha256_hexdigest lib (encode_utf8 s2) in
                      if p1 = p2 then (Inr (encode_utf8 p1), w2)
                      else (Inl (SystemExit 1),
                            print (''>>> Incorrect Password ! <<<'' @ [CHR 0x0A]) w2)))))"

definition kdf_scrypt :: "crypto_lib \<Rightarrow> Security \<Rightarrow> pyval \<Rightarrow> world \<Rightarrow> (py_error + bytes) \<times> world" where
  "kdf_scrypt lib self slt w =
     call_scrypt lib (PStr (py_str lib (PBytes (mp self)))) (PStr (py_str lib slt))
       (key_length self) (cost_factor self) (rounds self) (parallel_factor self) w"

definition Security_encrypt ::
  "crypto_lib \<Rightarrow> Security \<Rightarrow> bytes \<Rightarrow> world \<Rightarrow> (py_error + CipherConfig) \<times> world" where
  "Security_encrypt lib self data w =
     (case get_random_bytes 32 w of
        (slt, w1) \<Rightarrow>
          (case kdf_scrypt lib self (PBytes slt) w1 of
             (Inl e, w2) \<Rightarrow> (Inl e, w2)
           | (Inr key, w2) \<Rightarrow>
               (case get_random_bytes 16 w2 of
                  (nce, w3) \<Rightarrow>
                    (case gcm_encrypt_and_digest lib key nce data of
                       Inl e \<Rightarrow> (Inl e, w3)
                     | Inr (ct, tg) \<Rightarrow>
                         (Inr (CipherConfig_init (PBytes ct) (PBytes slt) (PBytes tg) (PBytes nce)),
                          w3)))))"

definition Security_decrypt ::
  "crypto_lib \<Rightarrow> Security \<Rightarrow> CipherConfig \<Rightarrow> world \<Rightarrow> (py_error + bytes) \<times> world" where
  "Security_decrypt lib self cc w =
     (case Utils_attrs cc of
        (ct, slt, tg, nce, _) \<Rightarrow>
          (case kdf_scrypt lib self slt w of
             (Inl e, w1) \<Rightarrow> (Inl e, w1)
           | (Inr key, w1) \<Rightarrow> (gcm_decrypt_and_verify lib key nce ct tg, w1)))"

subsection \<open>Cryptfile\<close>

text \<open>
  \<open>self.files\<close> is a set; the list \<open>files\<close> is the order in which the \<open>for\<close> loop
  visits it. An exception leaves the loop and the function; the world at that moment is
  returned with it.
\<close>

text \<open>The four progress lines, each with the \<open>end\<close> its \<open>print\<close> call passes.\<close>

definition msg_encrypting :: "string \<Rightarrow> string" where
  "msg_encrypting file = [CHR 0x0A] @ ''Encrypting [ '' @ file @ '' ]'' @ [CHR 0x0D]"

definition msg_encrypted :: "string \<Rightarrow> string" where
  "msg_encrypted file =
     ''Encrypting [ '' @ file @ '' ] '' @ [CHR 0x09] @ '' [+] Completed'' @ [CHR 0x0A]"

definition msg_decrypting :: "string \<Rightarrow> string" where
  "msg_decrypting file = [CHR 0x0A] @ ''Decrypting [ '' @ file @ '' ]'' @ [CHR 0x0D]"

definition msg_decrypted :: "string \<Rightarrow> string" where
  "msg_decrypted file =
     ''Decrypting [ '' @ file @ '' ] '' @ [CHR 0x09] @ '' [+] Completed'' @ [CHR 0x0A]"

definition encrypt_one :: "crypto_lib \<Rightarrow> bytes \<Rightarrow> string \<Rightarrow> world \<Rightarrow> (py_error + unit) \<times> world" where
  "encrypt_one lib password_hash file w =
     (case Utils_open_file lib file False w of
        Inl e \<Rightarrow> (Inl e, w)
      | Inr (Pickled _) \<Rightarrow> (Inl TypeError, w)
      | Inr (Raw data) \<Rightarrow>
          (let w1 = print (msg_encrypting file) w in
           case Security_encrypt lib (Security_init password_hash) data w1 of
             (Inl e, w2) \<Rightarrow> (Inl e, w2)
           | (Inr cc, w2) \<Rightarrow>
               (case Utils_save_cc lib (cc\<lparr>filename := PStr file\<rparr>) file w2 of
                  Inl e \<Rightarrow> (Inl e, w2)
                | Inr w3 \<Rightarrow> (Inr (), print (msg_encrypted file) w3))))"

fun encrypt_loop :: "crypto_lib \<Rightarrow> bytes \<Rightarrow> string list \<Rightarrow> world \<Rightarrow> (py_error + unit) \<times> world" where
  "encrypt_loop lib password_hash [] w = (Inr (), w)"
| "encrypt_loop lib password_hash (file # files) w =
     (case encrypt_one lib password_hash file w of
        (Inl e, w1) \<Rightarrow> (Inl e, w1)
      | (Inr _, w1) \<Rightarrow> encrypt_loop lib password_hash files w1)"

definition Cryptfile_encrypt_file ::
  "crypto_lib \<Rightarrow> string list \<Rightarrow> world \<Rightarrow> (py_error + unit) \<times> world" where
  "Cryptfile_encrypt_file lib files w =
     (case Security_getpass lib False w of
        (Inl e, w1) \<Rightarrow> (Inl e, w1)
      | (Inr password_hash, w1) \<Rightarrow> encrypt_loop lib password_hash files w1)"

definition decrypt_one :: "crypto_lib \<Rightarrow> bytes \<Rightarrow> string \<Rightarrow> world \<Rightarrow> (py_error + unit) \<times> world" where
  "decrypt_one lib password_hash file w =
     (case Utils_open_file lib file True w of
        Inl e \<Rightarrow> (Inl e, w)
      | Inr (Raw _) \<Rightarrow> (Inl TypeError, w)
      | Inr (Pickled cc) \<Rightarrow>
          (let w1 = print (msg_decrypting file) w in
           case Security_decrypt lib (Security_init password_hash) cc w1 of
             (Inl e, w2) \<Rightarrow> (Inl e, w2)
           | (Inr data, w2) \<Rightarrow>
               (case Utils_save_file data (filename cc) w2 of
                  Inl e \<Rightarrow> (Inl e, w2)
                | Inr w3 \<Rightarrow> (Inr (), print (msg_decrypted file) w3))))"

fun decrypt_loop :: "crypto_lib \<Rightarrow> bytes \<Rightarrow> string list \<Rightarrow> world \<Rightarrow> (py_error + unit) \<times> world" where
  "decrypt_loop lib password_hash [] w = (Inr (), w)"
| "decrypt_loop lib password_hash (file # files) w =
     (case decrypt_one lib password_hash file w of
        (Inl e, w1) \<Rightarrow> (Inl e, w1)
      | (Inr _, w1) \<Rightarrow> decrypt_loop lib password_hash files w1)"

definition Cryptfile_decrypt_file ::
  "crypto_lib \<Rightarrow> string list \<Rightarrow> world \<Rightarrow> (py_error + unit) \<times> world" where
  "Cryptfile_decrypt_file lib files w =
     (case Security_getpass lib True w of
        (Inl e, w1) \<Rightarrow> (Inl e, w1)
      | (Inr password_hash, w1) \<Rightarrow> decrypt_loop lib password_hash files w1)"

section \<open>obsfile/security.py\<close>

text \<open>
  The legacy \<open>decrypt(configs, key)\<close>. Its first line draws 32 random bytes into
  \<open>random_bytes\<close> (\<open>random_bytes0\<close> below); its second line assigns
  \<open>configs['salt']\<close> to the same variable.
\<close>

definition dict_get :: "(string \<rightharpoonup> pyval) \<Rightarrow> string \<Rightarrow> py_error + pyval" where
  "dict_get d k = (case d k of None \<Rightarrow> Inl KeyError | Some v \<Rightarrow> Inr v)"

definition obsfile_decrypt ::
  "crypto_lib \<Rightarrow> (string \<rightharpoonup> pyval) \<Rightarrow> pyval \<Rightarrow> world \<Rightarrow> (py_error + bytes) \<times> world" where
  "obsfile_decrypt lib configs key w =
     (case get_random_bytes 32 w of
        (rb, w1) \<Rightarrow>
          (let random_bytes0 = PStr (py_str lib (PBytes rb)) in
           case dict_get configs ''salt'' of
             Inl e \<Rightarrow> (Inl e, w1)
           | Inr random_bytes \<Rightarrow>
               (case dict_get configs ''ciphertext'' of
                  Inl e \<Rightarrow> (Inl e, w1)
                | Inr ct \<Rightarrow>
                    (case dict_get configs ''nonce'' of
                       Inl e \<Rightarrow> (Inl e, w1)
                     | Inr nce \<Rightarrow>
                         (case dict_get configs ''tag'' of
                            Inl e \<Rightarrow> (Inl e, w1)
                          | Inr tg \<Rightarrow>
                              (case call_scrypt lib key random_bytes 32 (2 ^ 14) 8 1 w1 of
                                 (Inl e, w2) \<Rightarrow> (Inl e, w2)
                               | (Inr private_key, w2) \<Rightarrow>
                                   (gcm_decrypt_and_verify lib private_key nce ct tg, w2)))))))"

section \<open>What the program needs of the library\<close>

text \<open>
  The key derivation succeeds on the string forms of two byte strings, with a key of the
  length asked for; sealing under a 32-byte key and a 16-byte nonce succeeds, keeps the
  length of the data, and opening what was sealed under the same key and nonce returns the
  data; a derived key has the length asked for.
\<close>

definition kdf_total :: "crypto_lib \<Rightarrow> bool" where
  "kdf_total lib =
     (\<forall>a b. \<exists>k. scrypt lib (PStr (py_str lib (PBytes a))) (PStr (py_str lib (PBytes b)))
                     32 (2 ^ 20) 8 1 = Inr k \<and> length k = 32)"

definition aead_correct :: "crypto_lib \<Rightarrow> bool" where
  "aead_correct lib =
     (\<forall>k n p. length k = 32 \<and> length n = 16 \<longrightarrow>
        (\<exists>c t. gcm_encrypt_and_digest lib k n p = Inr (c, t) \<and> length c = length p \<and>
               gcm_decrypt_and_verify lib k (PBytes n) (PBytes c) (PBytes t) = Inr p))"


definition scrypt_length :: "crypto_lib \<Rightarrow> bool" where
  "scrypt_length lib =
     (\<forall>password slt key_len N r p k.
        scrypt lib password slt key_len N r p = Inr k \<longrightarrow> length k = key_len)"

text \<open>The salt and the nonce an encryption starting in world \<open>w\<close> draws.\<close>

definition drawn_salt :: "world \<Rightarrow> bytes" where
  "drawn_salt w = fst (get_random_bytes 32 w)"

definition drawn_nonce :: "world \<Rightarrow> bytes" where
  "drawn_nonce w = fst (get_random_bytes 16 (snd (get_random_bytes 32 w)))"

section \<open>An executable instance of the library interface\<close>

text \<open>
  A small stand-in for the library, so that the model can be run on concrete inputs: a
  length-prefixed encoding of flat values for \<open>pickle\<close>, a byte-sum stream cipher with
  a checksum tag for AES-GCM, and byte sums for SHA-256 and scrypt. It has the shape of the
  real functions (what they accept, which exception they raise, the length of what they
  return) and none of their strength.
\<close>

definition enc_nat :: "nat \<Rightarrow> bytes" where
  "enc_nat n = replicate n 1 @ [0]"

fun dec_nat :: "bytes \<Rightarrow> (nat \<times> bytes) option" where
  "dec_nat [] = None"
| "dec_nat (b # bs) =
     (if b = 0 then Some (0, bs)
      else if b = 1 then (case dec_nat bs of None \<Rightarrow> None | Some (n, r) \<Rightarrow> Some (Suc n, r))
      else None)"

fun is_atom :: "pyval \<Rightarrow> bool" where
  "is_atom (PDict kvs) = False"
| "is_atom v = True"

fun enc_atom :: "pyval \<Rightarrow> bytes" where
  "enc_atom PNone = [0]"
| "enc_atom (PBytes b) = 1 # enc_nat (length b) @ b"
| "enc_atom (PStr s) = 2 # enc_nat (length s) @ encode_utf8 s"
| "enc_atom (PDict kvs) = [255]"

definition dec_atom :: "bytes \<Rightarrow> (pyval \<times> bytes) option" where
  "dec_atom bs =
     (case bs of
        [] \<Rightarrow> None
      | t # r \<Rightarrow>
          if t = 0 then Some (PNone, r)
          else if t = 1 \<or> t = 2 then
            (case dec_nat r of
               None \<Rightarrow> None
             | Some (n, r') \<Rightarrow>
                 if length r' < n then None
                 else if t = 1 then Some (PBytes (take n r'), drop n r')
                 else Some (PStr (fsdecode (take n r')), drop n r'))
          else None)"

fun enc_items :: "(pyval \<times> pyval) list \<Rightarrow> bytes" where
  "enc_items [] = []"
| "enc_items ((k, v) # kvs) = enc_atom k @ enc_atom v @ enc_items kvs"

fun dec_items :: "nat \<Rightarrow> bytes \<Rightarrow> ((pyval \<times> pyval) list \<times> bytes) option" where
  "dec_items 0 bs = Some ([], bs)"
| "dec_items (Suc n) bs =
     (case dec_atom bs of
        None \<Rightarrow> None
      | Some (k, r1) \<Rightarrow>
          (case dec_atom r1 of
             None \<Rightarrow> None
           | Some (v, r2) \<Rightarrow>
               (case dec_items n r2 of
                  None \<Rightarrow> None
                | Some (kvs, r3) \<Rightarrow> Some ((k, v) # kvs, r3))))"

definition toy_pickle_dump :: "pyval \<Rightarrow> int \<Rightarrow> bytes" where
  "toy_pickle_dump v protocol =
     (case v of PDict kvs \<Rightarrow> 3 # enc_nat (length kvs) @ enc_items kvs | _ \<Rightarrow> enc_atom v)"

definition toy_pickle_load :: "bytes \<Rightarrow> py_error + pyval" where
  "toy_pickle_load bs =
     (case bs of
        [] \<Rightarrow> Inl EOFError
      | t # r \<Rightarrow>
          if t = 3 then
            (case dec_nat r of
               None \<Rightarrow> Inl UnpicklingError
             | Some (n, r') \<Rightarrow>
                 (case dec_items n r' of
                    Some (kvs, []) \<Rightarrow> Inr (PDict kvs)
                  | _ \<Rightarrow> Inl UnpicklingError))
          else (case dec_atom bs of Some (v, []) \<Rightarrow> Inr v | _ \<Rightarrow> Inl UnpicklingError))"

fun toy_str :: "pyval \<Rightarrow> string" where
  "toy_str PNone = ''None''"
| "toy_str (PBytes b) = ''b'' @ [CHR 0x27] @ fsdecode b @ [CHR 0x27]"
| "toy_str (PStr s) = s"
| "toy_str (PDict kvs) = ''{}''"

definition toy_sha256_hexdigest :: "bytes \<Rightarrow> string" where
  "toy_sha256_hexdigest bs =
     (let s = unat (sum_list bs)
      in [''0123456789abcdef'' ! (s div 16), ''0123456789abcdef'' ! (s mod 16)])"

fun toy_tobytes :: "pyval \<Rightarrow> bytes option" where
  "toy_tobytes (PStr s) = Some (encode_utf8 s)"
| "toy_tobytes (PBytes b) = Some b"
| "toy_tobytes v = None"

definition toy_scrypt ::
  "pyval \<Rightarrow> pyval \<Rightarrow> nat \<Rightarrow> nat \<Rightarrow> nat \<Rightarrow> nat \<Rightarrow> py_error + bytes" where
  "toy_scrypt password slt key_len N r p =
     (case (toy_tobytes password, toy_tobytes slt) of
        (Some a, Some b) \<Rightarrow> Inr (replicate key_len (sum_list a + 3 * sum_list b))
      | _ \<Rightarrow> Inl TypeError)"

definition toy_key_ok :: "bytes \<Rightarrow> bool" where
  "toy_key_ok key = (length key \<in> {16, 24, 32})"

definition toy_pad :: "bytes \<Rightarrow> bytes \<Rightarrow> byte" where
  "toy_pad key nce = hd key + sum_list nce"

definition toy_tag :: "bytes \<Rightarrow> bytes \<Rightarrow> bytes \<Rightarrow> bytes" where
  "toy_tag key nce ct = map (\<lambda>b. b + (sum_list ct + sum_list nce + 1)) key"


definition toy_encrypt_and_digest :: "bytes \<Rightarrow> bytes \<Rightarrow> bytes \<Rightarrow> py_error + (bytes \<times> bytes)" where
  "toy_encrypt_and_digest key nce data =
     (if toy_key_ok key \<and> nce \<noteq> []
      then Inr (map (\<lambda>b. b + toy_pad key nce) data,
                toy_tag key nce (map (\<lambda>b. b + toy_pad key nce) data))
      else Inl ValueError)"

definition toy_decrypt_and_verify :: "bytes \<Rightarrow> pyval \<Rightarrow> pyval \<Rightarrow> pyval \<Rightarrow> py_error + bytes" where
  "toy_decrypt_and_verify key nce ct tg =
     (case (nce, ct, tg) of
        (PBytes n, PBytes c, PBytes t) \<Rightarrow>
          if toy_key_ok key \<and> n \<noteq> [] \<and> t = toy_tag key n c
          then Inr (map (\<lambda>b. b - toy_pad key n) c)
          else Inl ValueError
      | _ \<Rightarrow> Inl TypeError)"

definition toy_lib :: crypto_lib where
  "toy_lib =
     \<lparr>py_str = toy_str, sha256_hexdigest = toy_sha256_hexdigest, scrypt = toy_scrypt,
      gcm_encrypt_and_digest = toy_encrypt_and_digest,
      gcm_decrypt_and_verify = toy_decrypt_and_verify,
      pickle_dump = toy_pickle_dump, pickle_load = toy_pickle_load\<rparr>"

definition world0 :: world where
  "world0 =
     \<lparr>fs = Map.empty,
      write_error = (\<lambda>p. if CHR ''/'' \<in> set p then Some FileNotFoundError else None),
      stdin = [], stdout = [], rng = (\<lambda>i. of_nat i), kdf_calls = 0\<rparr>"

definition world1 :: world where
  "world1 = world0\<lparr>rng := (\<lambda>i. of_nat i + 1)\<rparr>"

section \<open>A sample run\<close>

text \<open>
  The container as \<open>Cryptfile.encrypt_file\<close> stores it, the round trip the stored
  containers need of \<open>pickle\<close>, and the worlds of a sample run: a file \<open>hello.txt\<close>
  holding \<open>b"hi"\<close> and the passphrase \<open>correct\<close> typed twice; the world after
  encrypting it; that world with the artifact renamed to \<open>secret.bin\<close> and another
  \<open>hello.txt\<close> in place; and the world after decrypting \<open>hello.txt.enc\<close>.
\<close>

definition stored :: "bytes \<Rightarrow> bytes \<Rightarrow> bytes \<Rightarrow> bytes \<Rightarrow> string \<Rightarrow> CipherConfig" where
  "stored c s t n f =
     \<lparr>ciphertext = PBytes c, salt = PBytes s, tag = PBytes t, nonce = PBytes n, filename = PStr f\<rparr>"

definition pickle_ok :: "crypto_lib \<Rightarrow> bool" where
  "pickle_ok lib =
     (\<forall>c s t n f. pickle_load lib (pickle_dump lib (PDict (CipherConfig_dict (stored c s t n f))) (- 1)) =
        Inr (PDict (CipherConfig_dict (stored c s t n f))))"

definition hello_world :: world where
  "hello_world = world0\<lparr>fs := [''hello.txt'' \<mapsto> [104, 105]], stdin := [''correct'', ''correct'']\<rparr>"

definition hello_hash :: bytes where
  "hello_hash = encode_utf8 (toy_sha256_hexdigest (encode_utf8 ''correct''))"

definition hello_encrypted :: world where
  "hello_encrypted = snd (Cryptfile_encrypt_file toy_lib [''hello.txt''] hello_world)"

definition hello_renamed :: world where
  "hello_renamed =
     hello_encrypted\<lparr>fs := (\<lambda>p. if p = ''secret.bin'' then fs hello_encrypted ''hello.txt.enc''
                                else if p = ''hello.txt'' then Some [0] else None),
                      stdin := [''correct'']\<rparr>"

definition hello_decrypted :: world where
  "hello_decrypted =
     snd (Cryptfile_decrypt_file toy_lib [''hello.txt.enc''] (hello_encrypted\<lparr>stdin := [''correct'']\<rparr>))"

section \<open>Properties\<close>

subsection \<open>The library instance meets the contracts\<close>

lemma char_of_unat_of_char: "char_of (unat (of_char a :: 8 word)) = a"
proof -
  have "(of_char a :: 8 word) = of_nat (of_char a)" by (simp only: of_nat_of_char)
  then have "unat (of_char a :: 8 word) = (of_char a :: nat) mod 256"
    by (simp add: unat_of_nat)
  then show ?thesis by simp
qed

lemma fsdecode_encode_utf8: "fsdecode (encode_utf8 s) = s"
  by (induction s) (simp_all add: fsdecode_def encode_utf8_def char_of_unat_of_char)

lemma length_encode_utf8: "length (encode_utf8 s) = length s"
  by (simp add: encode_utf8_def)

lemma dec_enc_nat: "dec_nat (enc_nat n @ r) = Some (n, r)"
  by (induction n) (simp_all add: enc_nat_def)

lemma dec_enc_atom: "is_atom v \<Longrightarrow> dec_atom (enc_atom v @ r) = Some (v, r)"
  by (cases v) (simp_all add: dec_atom_def dec_enc_nat length_encode_utf8 fsdecode_encode_utf8)

lemma dec_enc_items:
  "list_all (\<lambda>(k, v). is_atom k \<and> is_atom v) kvs \<Longrightarrow>
   dec_items (length kvs) (enc_items kvs @ r) = Some (kvs, r)"
  by (induction kvs arbitrary: r) (auto simp: dec_enc_atom)

lemma toy_pickle_roundtrip:
  "list_all (\<lambda>(k, v). is_atom k \<and> is_atom v) kvs \<Longrightarrow>
   toy_pickle_load (toy_pickle_dump (PDict kvs) protocol) = Inr (PDict kvs)"
  using dec_enc_items [of kvs "[]"]
  by (simp add: toy_pickle_load_def toy_pickle_dump_def dec_enc_nat)

lemma toy_kdf_total: "kdf_total toy_lib"
  by (simp add: kdf_total_def toy_lib_def toy_scrypt_def)

lemma toy_aead_correct: "aead_correct toy_lib"
  by (auto simp: aead_correct_def toy_lib_def toy_encrypt_and_digest_def
      toy_decrypt_and_verify_def toy_key_ok_def comp_def)


lemma length_get_random_bytes: "length (fst (get_random_bytes n w)) = n"
  by (simp add: get_random_bytes_def)

lemma CipherConfig_kwargs_dict: "CipherConfig_kwargs (PDict (CipherConfig_dict cc)) = Inr cc"
  by (simp add: CipherConfig_kwargs_def CipherConfig_dict_def accepts_kwargs_def
      required_fields_def)

lemma toy_pickle_ok: "pickle_ok toy_lib"
  by (simp add: pickle_ok_def toy_lib_def toy_pickle_roundtrip CipherConfig_dict_def stored_def)

lemma toy_pickle_stored:
  "pickle_load toy_lib (pickle_dump toy_lib (PDict (CipherConfig_dict (stored c s t n f))) (- 1)) =
     Inr (PDict (CipherConfig_dict (stored c s t n f)))"
  using toy_pickle_ok by (simp add: pickle_ok_def)

lemma of_char_char_of_unat: "(of_char (char_of (unat x)) :: 8 word) = x"
proof -
  have lt: "unat x < 256" using unsigned_less [of x, where ?'a = nat] by simp
  have "(of_char (char_of (unat x)) :: 8 word) = of_nat (of_char (char_of (unat x)))"
    by (simp only: of_nat_of_char)
  also have "\<dots> = of_nat (unat x mod 256)" by simp
  also have "\<dots> = x" using lt by simp
  finally show ?thesis .
qed

lemma encode_utf8_fsdecode: "encode_utf8 (fsdecode b) = b"
  by (induction b) (simp_all add: encode_utf8_def fsdecode_def of_char_char_of_unat)

lemma encode_utf8_simps:
  "encode_utf8 [] = []" "encode_utf8 (c # s) = of_char c # encode_utf8 s"
  by (simp_all add: encode_utf8_def)

lemma encode_utf8_append: "encode_utf8 (a @ b) = encode_utf8 a @ encode_utf8 b"
  by (simp add: encode_utf8_def)

lemma toy_scrypt_key:
  "scrypt toy_lib (PStr (py_str toy_lib (PBytes H))) (PStr (py_str toy_lib slt)) n N r p =
     Inr (replicate n (sum_list H + 176 + 3 * sum_list (encode_utf8 (toy_str slt))))"
proof -
  have "encode_utf8 (toy_str (PBytes H)) = [98, 39] @ H @ [39]"
    by (simp add: encode_utf8_append encode_utf8_fsdecode encode_utf8_simps)
  then show ?thesis
    by (simp add: toy_lib_def toy_scrypt_def)
qed

lemma toy_scrypt_length: "scrypt_length toy_lib"
  by (auto simp: scrypt_length_def toy_lib_def toy_scrypt_def split: option.splits)

subsection \<open>What each step changes\<close>

lemma print_frame [simp]:
  "fs (print s w) = fs w" "stdin (print s w) = stdin w" "rng (print s w) = rng w"
  "kdf_calls (print s w) = kdf_calls w" "stdout (print s w) = stdout w @ [s]"
  "write_error (print s w) = write_error w"
  by (simp_all add: print_def)

lemma write_file_ok:
  "can_write w path \<Longrightarrow> write_file path b w = Inr (w\<lparr>fs := (fs w)(path \<mapsto> b)\<rparr>)"
  by (simp add: write_file_def can_write_def)

lemma write_file_cases:
  "write_file path b w = Inr w' \<Longrightarrow> can_write w path \<and> w' = w\<lparr>fs := (fs w)(path \<mapsto> b)\<rparr>"
  by (auto simp: write_file_def can_write_def split: if_splits option.splits)

lemma Security_encrypt_frame:
  "fs (snd (Security_encrypt lib self data w)) = fs w \<and>
   stdin (snd (Security_encrypt lib self data w)) = stdin w \<and>
   stdout (snd (Security_encrypt lib self data w)) = stdout w \<and>
   write_error (snd (Security_encrypt lib self data w)) = write_error w"
  by (simp add: Security_encrypt_def get_random_bytes_def kdf_scrypt_def call_scrypt_def
      split: sum.splits prod.splits)

lemma Security_decrypt_frame:
  "snd (Security_decrypt lib self cc w) = w\<lparr>kdf_calls := Suc (kdf_calls w)\<rparr>"
  by (simp add: Security_decrypt_def Utils_attrs_def kdf_scrypt_def call_scrypt_def
      split: sum.splits prod.splits)

lemma open_file_raw:
  "Utils_open_file lib file False w =
     (case fs w file of None \<Rightarrow> Inl FileNotFoundError | Some data \<Rightarrow> Inr (Raw data))"
  by (simp add: Utils_open_file_def read_file_def split: option.splits)

lemma save_cc_ok:
  "can_write w (file @ ''.enc'') \<Longrightarrow>
   Utils_save_cc lib cc file w =
     Inr (w\<lparr>fs := (fs w)(file @ ''.enc'' \<mapsto> pickle_dump lib (PDict (CipherConfig_dict cc)) (- 1))\<rparr>)"
  by (simp add: Utils_save_cc_def write_file_ok)

lemma save_cc_cases:
  "Utils_save_cc lib cc file w = Inr w' \<Longrightarrow>
   w' = w\<lparr>fs := (fs w)(file @ ''.enc'' \<mapsto> pickle_dump lib (PDict (CipherConfig_dict cc)) (- 1))\<rparr>"
  by (auto simp: Utils_save_cc_def dest: write_file_cases)

lemma save_file_frame:
  "Utils_save_file data fname w = Inr w' \<Longrightarrow> stdin w' = stdin w \<and> stdout w' = stdout w"
  by (auto simp: Utils_save_file_def split: pyval.splits dest!: write_file_cases)

subsection \<open>Encryption and decryption\<close>

lemma Security_encrypt_ok:
  assumes "kdf_total lib" and "aead_correct lib"
  shows "\<exists>key ct tg w'.
           scrypt lib (PStr (py_str lib (PBytes H))) (PStr (py_str lib (PBytes (drawn_salt w))))
             32 (2 ^ 20) 8 1 = Inr key \<and>
           length key = 32 \<and> length ct = length P \<and>
           gcm_decrypt_and_verify lib key (PBytes (drawn_nonce w)) (PBytes ct) (PBytes tg) = Inr P \<and>
           Security_encrypt lib (Security_init H) P w =
             (Inr (CipherConfig_init (PBytes ct) (PBytes (drawn_salt w)) (PBytes tg)
                    (PBytes (drawn_nonce w))), w') \<and>
           fs w' = fs w \<and> stdin w' = stdin w \<and> stdout w' = stdout w \<and>
           rng w' = (\<lambda>i. rng w (i + 48)) \<and> kdf_calls w' = Suc (kdf_calls w) \<and>
           write_error w' = write_error w"
proof -
  obtain key where key: "scrypt lib (PStr (py_str lib (PBytes H)))
       (PStr (py_str lib (PBytes (drawn_salt w)))) 32 (2 ^ 20) 8 1 = Inr key" "length key = 32"
    using assms(1) unfolding kdf_total_def by blast
  have n16: "length (drawn_nonce w) = 16"
    by (simp add: drawn_nonce_def length_get_random_bytes)
  obtain ct tg where ct: "gcm_encrypt_and_digest lib key (drawn_nonce w) P = Inr (ct, tg)"
     "length ct = length P"
     "gcm_decrypt_and_verify lib key (PBytes (drawn_nonce w)) (PBytes ct) (PBytes tg) = Inr P"
    using assms(2) key(2) n16 unfolding aead_correct_def by blast
  let ?w' = "snd (Security_encrypt lib (Security_init H) P w)"
  have e: "Security_encrypt lib (Security_init H) P w =
             (Inr (CipherConfig_init (PBytes ct) (PBytes (drawn_salt w)) (PBytes tg)
                    (PBytes (drawn_nonce w))), ?w')"
    using key(1) ct(1)
    by (simp add: Security_encrypt_def get_random_bytes_def kdf_scrypt_def call_scrypt_def
        Security_init_def drawn_salt_def drawn_nonce_def del: upt_rec_numeral)
  have w': "fs ?w' = fs w \<and> stdin ?w' = stdin w \<and> stdout ?w' = stdout w \<and>
           rng ?w' = (\<lambda>i. rng w (i + 48)) \<and> kdf_calls ?w' = Suc (kdf_calls w) \<and>
           write_error ?w' = write_error w"
    using key(1) ct(1)
    by (simp add: Security_encrypt_def get_random_bytes_def kdf_scrypt_def call_scrypt_def
        Security_init_def drawn_salt_def drawn_nonce_def add.assoc del: upt_rec_numeral)
  from key ct e w' show ?thesis by blast
qed

lemma Security_decrypt_eq:
  "fst (Security_decrypt lib (Security_init H) cc w) =
     (case scrypt lib (PStr (py_str lib (PBytes H))) (PStr (py_str lib (salt cc))) 32 (2 ^ 20) 8 1 of
        Inl e \<Rightarrow> Inl e
      | Inr key \<Rightarrow> gcm_decrypt_and_verify lib key (nonce cc) (ciphertext cc) (tag cc))"
  by (simp add: Security_decrypt_def Utils_attrs_def kdf_scrypt_def call_scrypt_def
      Security_init_def split: sum.splits)

lemma kdf_scrypt_eq:
  "fst (kdf_scrypt lib (Security_init H) slt w) =
     scrypt lib (PStr (py_str lib (PBytes H))) (PStr (py_str lib slt)) 32 (2 ^ 20) 8 1"
  by (simp add: kdf_scrypt_def call_scrypt_def Security_init_def)

lemma Security_encrypt_Inr:
  assumes "Security_encrypt lib (Security_init H) P w = (Inr cc, w')"
  shows "\<exists>key ct tg.
           scrypt lib (PStr (py_str lib (PBytes H))) (PStr (py_str lib (PBytes (drawn_salt w))))
             32 (2 ^ 20) 8 1 = Inr key \<and>
           gcm_encrypt_and_digest lib key (drawn_nonce w) P = Inr (ct, tg) \<and>
           cc = CipherConfig_init (PBytes ct) (PBytes (drawn_salt w)) (PBytes tg)
                  (PBytes (drawn_nonce w)) \<and>
           kdf_calls w' = Suc (kdf_calls w)"
  using assms
  by (auto simp: Security_encrypt_def get_random_bytes_def kdf_scrypt_def call_scrypt_def
      Security_init_def drawn_salt_def drawn_nonce_def
      split: sum.splits prod.splits simp del: upt_rec_numeral)

lemma Security_encrypt_salt:
  assumes "Security_encrypt lib self P w = (Inr cc, w')"
  shows "salt cc = PBytes (drawn_salt w) \<and> rng w' = (\<lambda>i. rng w (i + 48))"
  using assms
  by (auto simp: Security_encrypt_def get_random_bytes_def kdf_scrypt_def call_scrypt_def
      drawn_salt_def CipherConfig_init_def add.assoc
      split: sum.splits prod.splits simp del: upt_rec_numeral)

lemma encrypt_empty:
  assumes "kdf_total lib" and "aead_correct lib"
  shows "\<exists>cc w'. Security_encrypt lib (Security_init H) [] w = (Inr cc, w') \<and>
           ciphertext cc = PBytes [] \<and> salt cc = PBytes (drawn_salt w)"
proof -
  from Security_encrypt_ok [OF assms, of H w "[]"]
  obtain ct tg w' where "length ct = length ([] :: bytes)"
    "Security_encrypt lib (Security_init H) [] w =
             (Inr (CipherConfig_init (PBytes ct) (PBytes (drawn_salt w)) (PBytes tg)
                    (PBytes (drawn_nonce w))), w')"
    by blast
  then show ?thesis by (simp add: CipherConfig_init_def)
qed

lemma drawn_salts_differ: "drawn_salt world0 \<noteq> drawn_salt world1"
proof
  assume "drawn_salt world0 = drawn_salt world1"
  then have "drawn_salt world0 ! 0 = drawn_salt world1 ! 0" by simp
  then show False
    by (simp add: drawn_salt_def get_random_bytes_def world0_def world1_def del: upt_rec_numeral)
qed

subsection \<open>One file, and the loop over the files\<close>

lemma encrypt_one_cases:
  "encrypt_one lib ph file w =
     (case fs w file of
        None \<Rightarrow> (Inl FileNotFoundError, w)
      | Some data \<Rightarrow>
          (case Security_encrypt lib (Security_init ph) data (print (msg_encrypting file) w) of
             (Inl e, w2) \<Rightarrow> (Inl e, w2)
           | (Inr cc, w2) \<Rightarrow>
               (case Utils_save_cc lib (cc\<lparr>filename := PStr file\<rparr>) file w2 of
                  Inl e \<Rightarrow> (Inl e, w2)
                | Inr w3 \<Rightarrow> (Inr (), print (msg_encrypted file) w3))))"
  by (simp add: encrypt_one_def open_file_raw split: option.splits sum.splits prod.splits)

lemma encrypt_one_fail:
  assumes "encrypt_one lib ph file w = (Inl e, w')"
  shows "fs w' = fs w"
proof (cases "fs w file")
  case None
  with assms show ?thesis by (simp add: encrypt_one_cases)
next
  case (Some data)
  obtain r w2 where se:
    "Security_encrypt lib (Security_init ph) data (print (msg_encrypting file) w) = (r, w2)"
    by fastforce
  with Security_encrypt_frame [of lib "Security_init ph" data "print (msg_encrypting file) w"]
  have "fs w2 = fs w" by simp
  with assms Some se show ?thesis
    by (cases r) (auto simp: encrypt_one_cases split: sum.splits)
qed

lemma decrypt_one_cases:
  "decrypt_one lib ph file w =
     (case Utils_open_file lib file True w of
        Inl e \<Rightarrow> (Inl e, w)
      | Inr (Raw x) \<Rightarrow> (Inl TypeError, w)
      | Inr (Pickled cc) \<Rightarrow>
          (case fst (Security_decrypt lib (Security_init ph) cc (print (msg_decrypting file) w)) of
             Inl e \<Rightarrow> (Inl e, (print (msg_decrypting file) w)\<lparr>kdf_calls := Suc (kdf_calls w)\<rparr>)
           | Inr data \<Rightarrow>
               (case Utils_save_file data (filename cc)
                       ((print (msg_decrypting file) w)\<lparr>kdf_calls := Suc (kdf_calls w)\<rparr>) of
                  Inl e \<Rightarrow> (Inl e, (print (msg_decrypting file) w)\<lparr>kdf_calls := Suc (kdf_calls w)\<rparr>)
                | Inr w3 \<Rightarrow> (Inr (), print (msg_decrypted file) w3))))"
proof (cases "Utils_open_file lib file True w")
  case (Inl e)
  then show ?thesis by (simp add: decrypt_one_def)
next
  case (Inr d)
  show ?thesis
  proof (cases d)
    case (Raw x)
    with Inr show ?thesis by (simp add: decrypt_one_def)
  next
    case (Pickled cc)
    obtain r w2 where sd:
      "Security_decrypt lib (Security_init ph) cc (print (msg_decrypting file) w) = (r, w2)"
      by fastforce
    with Security_decrypt_frame [of lib "Security_init ph" cc "print (msg_decrypting file) w"]
    have "w2 = (print (msg_decrypting file) w)\<lparr>kdf_calls := Suc (kdf_calls w)\<rparr>" by simp
    with Inr Pickled sd show ?thesis
      by (simp add: decrypt_one_def split: sum.splits)
  qed
qed

lemma decrypt_one_fail:
  assumes "decrypt_one lib ph file w = (Inl e, w')"
  shows "fs w' = fs w"
  using assms
  by (auto simp: decrypt_one_cases split: sum.splits file_data.splits)

lemma decrypt_one_stdin: "stdin (snd (decrypt_one lib ph file w)) = stdin w"
  by (auto simp: decrypt_one_cases split: sum.splits file_data.splits dest: save_file_frame)

lemma decrypt_loop_stdin: "stdin (snd (decrypt_loop lib ph files w)) = stdin w"
proof (induction files arbitrary: w)
  case Nil
  show ?case by simp
next
  case (Cons f files)
  obtain r w1 where e: "decrypt_one lib ph f w = (r, w1)" by fastforce
  with decrypt_one_stdin [of lib ph f w] have "stdin w1 = stdin w" by simp
  with e Cons [of w1] show ?case by (cases r) simp_all
qed

lemma encrypt_loop_append:
  "encrypt_loop lib ph pre w = (Inr u, w1) \<Longrightarrow>
   encrypt_loop lib ph (pre @ rest) w = encrypt_loop lib ph rest w1"
  by (induction pre arbitrary: w) (auto split: sum.splits prod.splits)

lemma decrypt_loop_append:
  "decrypt_loop lib ph pre w = (Inr u, w1) \<Longrightarrow>
   decrypt_loop lib ph (pre @ rest) w = decrypt_loop lib ph rest w1"
  by (induction pre arbitrary: w) (auto split: sum.splits prod.splits)

lemma encrypt_one_ok:
  assumes "kdf_total lib" and "aead_correct lib" and "fs w file = Some data"
    and "can_write w (file @ ''.enc'')"
  shows "\<exists>c s t n w'. encrypt_one lib ph file w = (Inr (), w') \<and>
      fs w' = (fs w)(file @ ''.enc'' \<mapsto>
                 pickle_dump lib (PDict (CipherConfig_dict (stored c s t n file))) (- 1)) \<and>
      (\<forall>w''. fst (Security_decrypt lib (Security_init ph) (stored c s t n file) w'') = Inr data) \<and>
      (\<exists>w2. Security_encrypt lib (Security_init ph) data (print (msg_encrypting file) w) =
               (Inr ((stored c s t n file)\<lparr>filename := PStr []\<rparr>), w2)) \<and>
      stdout w' = stdout w @ [msg_encrypting file, msg_encrypted file] \<and> stdin w' = stdin w \<and>
      write_error w' = write_error w"
proof -
  let ?w1 = "print (msg_encrypting file) w"
  from Security_encrypt_ok [OF assms(1,2), of ph ?w1 data]
  obtain key ct tg w2 where
    k: "scrypt lib (PStr (py_str lib (PBytes ph))) (PStr (py_str lib (PBytes (drawn_salt ?w1))))
             32 (2 ^ 20) 8 1 = Inr key"
    and d: "gcm_decrypt_and_verify lib key (PBytes (drawn_nonce ?w1)) (PBytes ct) (PBytes tg) = Inr data"
    and e: "Security_encrypt lib (Security_init ph) data ?w1 =
             (Inr (CipherConfig_init (PBytes ct) (PBytes (drawn_salt ?w1)) (PBytes tg)
                    (PBytes (drawn_nonce ?w1))), w2)"
    and fr: "fs w2 = fs ?w1" "stdin w2 = stdin ?w1" "stdout w2 = stdout ?w1"
      "write_error w2 = write_error ?w1"
    by blast
  have cw: "can_write w2 (file @ ''.enc'')"
    using assms(4) fr(4) by (simp add: can_write_def)
  have ci: "CipherConfig_init (PBytes ct) (PBytes (drawn_salt ?w1)) (PBytes tg)
                    (PBytes (drawn_nonce ?w1)) =
            (stored ct (drawn_salt ?w1) tg (drawn_nonce ?w1) file)\<lparr>filename := PStr []\<rparr>"
    by (simp add: CipherConfig_init_def stored_def)
  have cc: "(CipherConfig_init (PBytes ct) (PBytes (drawn_salt ?w1)) (PBytes tg)
                    (PBytes (drawn_nonce ?w1)))\<lparr>filename := PStr file\<rparr> =
            stored ct (drawn_salt ?w1) tg (drawn_nonce ?w1) file"
    by (simp add: CipherConfig_init_def stored_def)
  have dec: "fst (Security_decrypt lib (Security_init ph)
               (stored ct (drawn_salt ?w1) tg (drawn_nonce ?w1) file) w'') = Inr data" for w''
    using k d by (simp add: Security_decrypt_eq stored_def)
  have "encrypt_one lib ph file w =
          (Inr (), print (msg_encrypted file)
             (w2\<lparr>fs := (fs w2)(file @ ''.enc'' \<mapsto> pickle_dump lib (PDict (CipherConfig_dict
                  (stored ct (drawn_salt ?w1) tg (drawn_nonce ?w1) file))) (- 1))\<rparr>))"
    using assms(3) e cc cw by (simp add: encrypt_one_cases save_cc_ok)
  moreover have "\<exists>w2. Security_encrypt lib (Security_init ph) data ?w1 =
      (Inr ((stored ct (drawn_salt ?w1) tg (drawn_nonce ?w1) file)\<lparr>filename := PStr []\<rparr>), w2)"
    using e ci by simp
  ultimately show ?thesis
    using fr dec
    by (intro exI [of _ ct] exI [of _ "drawn_salt ?w1"] exI [of _ tg] exI [of _ "drawn_nonce ?w1"])
       simp
qed

lemma decrypt_one_ok:
  assumes "fs w file = Some (pickle_dump lib (PDict (CipherConfig_dict cc)) (- 1))"
    and "pickle_load lib (pickle_dump lib (PDict (CipherConfig_dict cc)) (- 1)) =
           Inr (PDict (CipherConfig_dict cc))"
    and "\<forall>w''. fst (Security_decrypt lib (Security_init ph) cc w'') = Inr data"
    and "filename cc = PStr p" and "can_write w p"
  shows "\<exists>w'. decrypt_one lib ph file w = (Inr (), w') \<and> fs w' = (fs w)(p \<mapsto> data) \<and>
           stdout w' = stdout w @ [msg_decrypting file, msg_decrypted file] \<and> stdin w' = stdin w"
proof -
  have o: "Utils_open_file lib file True w = Inr (Pickled cc)"
    using assms(1,2) by (simp add: Utils_open_file_def read_file_def CipherConfig_kwargs_dict)
  have "can_write ((print (msg_decrypting file) w)\<lparr>kdf_calls := Suc (kdf_calls w)\<rparr>) p"
    using assms(5) by (simp add: can_write_def)
  then show ?thesis
    using assms(3,4) o
    by (simp add: decrypt_one_cases Utils_save_file_def write_file_ok)
qed

lemma getpass_once:
  "stdin w = s1 # rest \<Longrightarrow>
   Security_getpass lib True w =
     (Inr (encode_utf8 (sha256_hexdigest lib (encode_utf8 s1))), w\<lparr>stdin := rest\<rparr>)"
  by (simp add: Security_getpass_def getpass_prompt_def)

lemma getpass_twice:
  "stdin w = s1 # s2 # rest \<Longrightarrow>
   Security_getpass lib False w =
     (if sha256_hexdigest lib (encode_utf8 s1) = sha256_hexdigest lib (encode_utf8 s2)
      then (Inr (encode_utf8 (sha256_hexdigest lib (encode_utf8 s1))), w\<lparr>stdin := rest\<rparr>)
      else (Inl (SystemExit 1), print (''>>> Incorrect Password ! <<<'' @ [CHR 0x0A]) (w\<lparr>stdin := rest\<rparr>)))"
  by (simp add: Security_getpass_def getpass_prompt_def Let_def)

subsection \<open>The sample run\<close>

lemma hello_getpass:
  "Security_getpass toy_lib False hello_world = (Inr hello_hash, hello_world\<lparr>stdin := []\<rparr>)"
  by (simp add: getpass_twice [of _ "''correct''" "''correct''" "[]"] hello_world_def hello_hash_def
      toy_lib_def)

lemma hello_encrypt_file:
  "\<exists>c s t n.
     fst (Cryptfile_encrypt_file toy_lib [''hello.txt''] hello_world) = Inr () \<and>
     fs hello_encrypted = [''hello.txt'' \<mapsto> [104, 105],
        ''hello.txt.enc'' \<mapsto> toy_pickle_dump (PDict (CipherConfig_dict (stored c s t n ''hello.txt''))) (- 1)] \<and>
     (\<forall>w''. fst (Security_decrypt toy_lib (Security_init hello_hash) (stored c s t n ''hello.txt'') w'') =
        Inr [104, 105]) \<and>
     (\<exists>w2. Security_encrypt toy_lib (Security_init hello_hash) [104, 105]
              (print (msg_encrypting ''hello.txt'') (hello_world\<lparr>stdin := []\<rparr>)) =
            (Inr ((stored c s t n ''hello.txt'')\<lparr>filename := PStr []\<rparr>), w2)) \<and>
     stdin hello_encrypted = [] \<and>
     stdout hello_encrypted = [msg_encrypting ''hello.txt'', msg_encrypted ''hello.txt''] \<and>
     write_error hello_encrypted = write_error world0"
proof -
  let ?w0 = "hello_world\<lparr>stdin := []\<rparr>"
  have f: "fs ?w0 ''hello.txt'' = Some [104, 105]" by (simp add: hello_world_def)
  have cw: "can_write ?w0 (''hello.txt'' @ ''.enc'')"
    by (simp add: can_write_def hello_world_def world0_def)
  from encrypt_one_ok [OF toy_kdf_total toy_aead_correct f cw, of hello_hash]
  obtain c s t n w' where
    e: "encrypt_one toy_lib hello_hash ''hello.txt'' ?w0 = (Inr (), w')"
    and w': "fs w' = (fs ?w0)(''hello.txt'' @ ''.enc'' \<mapsto>
                 pickle_dump toy_lib (PDict (CipherConfig_dict (stored c s t n ''hello.txt''))) (- 1))"
      "\<forall>w''. fst (Security_decrypt toy_lib (Security_init hello_hash) (stored c s t n ''hello.txt'') w'') = Inr [104, 105]"
      "stdout w' = stdout ?w0 @ [msg_encrypting ''hello.txt'', msg_encrypted ''hello.txt'']"
      "stdin w' = stdin ?w0"
      "write_error w' = write_error ?w0"
      "\<exists>w2. Security_encrypt toy_lib (Security_init hello_hash) [104, 105]
              (print (msg_encrypting ''hello.txt'') ?w0) =
            (Inr ((stored c s t n ''hello.txt'')\<lparr>filename := PStr []\<rparr>), w2)"
    by blast
  have r: "Cryptfile_encrypt_file toy_lib [''hello.txt''] hello_world = (Inr (), w')"
    using e by (simp add: Cryptfile_encrypt_file_def hello_getpass)
  then have "hello_encrypted = w'" by (simp add: hello_encrypted_def)
  moreover have "fs w' = [''hello.txt'' \<mapsto> [104, 105],
        ''hello.txt.enc'' \<mapsto> toy_pickle_dump (PDict (CipherConfig_dict (stored c s t n ''hello.txt''))) (- 1)]"
    using w'(1) by (simp add: hello_world_def world0_def toy_lib_def)
  moreover have "stdin w' = []" "stdout w' = [msg_encrypting ''hello.txt'', msg_encrypted ''hello.txt'']"
    "write_error w' = write_error world0"
    using w'(3,4,5) by (simp_all add: hello_world_def world0_def)
  ultimately show ?thesis
    using r w'(2,6)
    by (intro exI [of _ c] exI [of _ s] exI [of _ t] exI [of _ n]) simp
qed

lemma hello_can_write:
  "can_write (hello_encrypted\<lparr>fs := f, stdin := i\<rparr>) ''hello.txt''"
  "can_write (hello_encrypted\<lparr>stdin := i\<rparr>) ''hello.txt''"
  using hello_encrypt_file by (auto simp: can_write_def world0_def)

lemma hello_encrypt_loop:
  "encrypt_loop toy_lib hello_hash [''hello.txt''] (hello_world\<lparr>stdin := []\<rparr>) =
     (Inr (), hello_encrypted)"
proof -
  have "Cryptfile_encrypt_file toy_lib [''hello.txt''] hello_world =
          encrypt_loop toy_lib hello_hash [''hello.txt''] (hello_world\<lparr>stdin := []\<rparr>)"
    by (simp add: Cryptfile_encrypt_file_def hello_getpass)
  with hello_encrypt_file show ?thesis
    by (auto simp: hello_encrypted_def prod_eq_iff)
qed

lemma hello_decrypt_loop:
  "\<exists>w'. decrypt_loop toy_lib hello_hash [''hello.txt.enc''] (hello_encrypted\<lparr>stdin := []\<rparr>) =
           (Inr (), w') \<and>
        fs w' = (fs hello_encrypted)(''hello.txt'' \<mapsto> [104, 105]) \<and> stdin w' = []"
proof -
  from hello_encrypt_file obtain c s t n where
    f: "fs hello_encrypted = [''hello.txt'' \<mapsto> [104, 105],
        ''hello.txt.enc'' \<mapsto> toy_pickle_dump (PDict (CipherConfig_dict (stored c s t n ''hello.txt''))) (- 1)]"
    and d: "\<forall>w''. fst (Security_decrypt toy_lib (Security_init hello_hash) (stored c s t n ''hello.txt'') w'') =
        Inr [104, 105]"
    by blast
  let ?w = "hello_encrypted\<lparr>stdin := []\<rparr>"
  have f': "fs ?w ''hello.txt.enc'' =
      Some (pickle_dump toy_lib (PDict (CipherConfig_dict (stored c s t n ''hello.txt''))) (- 1))"
    using f by (simp add: toy_lib_def)
  have n: "filename (stored c s t n ''hello.txt'') = PStr ''hello.txt''"
    by (simp add: stored_def)
  from decrypt_one_ok [OF f' toy_pickle_stored d n hello_can_write(2)]
  show ?thesis by auto
qed

subsection \<open>Keyword arguments of the container\<close>

lemma accepts_kwargs_iff:
  "accepts_kwargs kvs \<longleftrightarrow>
     set required_fields \<subseteq> fst ` set kvs \<and>
     fst ` set kvs \<subseteq> set required_fields \<union> {PStr ''filename''}"
  by (auto simp: accepts_kwargs_def list_all_iff)

lemma the_default_map_of:
  "k \<in> fst ` set kvs \<Longrightarrow> the_default d (map_of kvs k) = the (map_of kvs k)"
  by (cases "map_of kvs k") (auto simp: map_of_eq_None_iff)

lemma the_default_case: "the_default d x = (case x of None \<Rightarrow> d | Some v \<Rightarrow> v)"
  by (cases x) simp_all

subsection \<open>The claims\<close>

text \<open>
  C1. End-to-end round trip: for every plaintext \<open>P\<close>, every passphrase hash \<open>H\<close> and
  every world \<open>w\<close> (so whatever salt and nonce the random tape yields), encryption returns
  a container, and decrypting that container under \<open>H\<close> returns exactly \<open>P\<close>, given a
  library whose key derivation succeeds and whose AEAD opens what it sealed.
\<close>

theorem encrypt_decrypt_roundtrip:
  assumes "kdf_total lib" and "aead_correct lib"
  shows "\<exists>cc w'. Security_encrypt lib (Security_init H) P w = (Inr cc, w') \<and>
           (\<forall>w''. fst (Security_decrypt lib (Security_init H) cc w'') = Inr P)"
proof -
  from Security_encrypt_ok [OF assms, of H w P]
  obtain key ct tg w' where
    k: "scrypt lib (PStr (py_str lib (PBytes H))) (PStr (py_str lib (PBytes (drawn_salt w))))
             32 (2 ^ 20) 8 1 = Inr key"
    and d: "gcm_decrypt_and_verify lib key (PBytes (drawn_nonce w)) (PBytes ct) (PBytes tg) = Inr P"
    and e: "Security_encrypt lib (Security_init H) P w =
             (Inr (CipherConfig_init (PBytes ct) (PBytes (drawn_salt w)) (PBytes tg)
                    (PBytes (drawn_nonce w))), w')"
    by blast
  have "fst (Security_decrypt lib (Security_init H)
          (CipherConfig_init (PBytes ct) (PBytes (drawn_salt w)) (PBytes tg)
             (PBytes (drawn_nonce w))) w'') = Inr P" for w''
    using k d by (simp add: Security_decrypt_eq CipherConfig_init_def)
  with e show ?thesis by blast
qed

theorem encrypt_decrypt_roundtrip_witness:
  "kdf_total toy_lib \<and> aead_correct toy_lib \<and>
   (\<exists>cc w'. Security_encrypt toy_lib (Security_init [1, 2]) [104, 105] world0 = (Inr cc, w') \<and>
      (\<forall>w''. fst (Security_decrypt toy_lib (Security_init [1, 2]) cc w'') = Inr [104, 105]))"
  using encrypt_decrypt_roundtrip [OF toy_kdf_total toy_aead_correct, of "[1, 2]" "[104, 105]" world0]
    toy_kdf_total toy_aead_correct
  by simp

text \<open>
  C2. Container serialization round trip: for every container with bytes for
  ciphertext, salt, tag and nonce and a string for the filename, whenever \<open>save_cc\<close>
  succeeds in writing \<open>file.enc\<close> (it does where the path can be written), \<open>open_file\<close>
  of \<open>file.enc\<close> with \<open>pickled=True\<close> in the resulting world returns a container
  equal to the saved one in every field, given that \<open>pickle\<close> loads what it dumped for
  the dict of this container.
\<close>

theorem container_roundtrip:
  assumes "cc = \<lparr>ciphertext = PBytes c, salt = PBytes s, tag = PBytes t, nonce = PBytes n,
                  filename = PStr f\<rparr>"
    and "pickle_load lib (pickle_dump lib (PDict (CipherConfig_dict cc)) (- 1)) =
           Inr (PDict (CipherConfig_dict cc))"
  shows "(Utils_save_cc lib cc file w = Inr w' \<longrightarrow>
            Utils_open_file lib (file @ ''.enc'') True w' = Inr (Pickled cc)) \<and>
         (can_write w (file @ ''.enc'') \<longrightarrow> (\<exists>w''. Utils_save_cc lib cc file w = Inr w''))"
proof (intro conjI impI)
  assume "Utils_save_cc lib cc file w = Inr w'"
  then have "w' = w\<lparr>fs := (fs w)(file @ ''.enc'' \<mapsto>
      pickle_dump lib (PDict (CipherConfig_dict cc)) (- 1))\<rparr>"
    by (rule save_cc_cases)
  with assms(2) show "Utils_open_file lib (file @ ''.enc'') True w' = Inr (Pickled cc)"
    by (simp add: Utils_open_file_def read_file_def CipherConfig_kwargs_dict)
next
  assume "can_write w (file @ ''.enc'')"
  then show "\<exists>w''. Utils_save_cc lib cc file w = Inr w''"
    by (simp add: save_cc_ok)
qed

theorem container_roundtrip_witness:
  "toy_pickle_load (toy_pickle_dump (PDict (CipherConfig_dict
       \<lparr>ciphertext = PBytes [226, 236], salt = PBytes [1, 2, 3], tag = PBytes [9],
        nonce = PBytes [4, 5], filename = PStr ''hello.txt''\<rparr>)) (- 1)) =
     Inr (PDict (CipherConfig_dict
       \<lparr>ciphertext = PBytes [226, 236], salt = PBytes [1, 2, 3], tag = PBytes [9],
        nonce = PBytes [4, 5], filename = PStr ''hello.txt''\<rparr>)) \<and>
   can_write world0 (''hello.txt'' @ ''.enc'') \<and>
   (\<exists>w'. Utils_save_cc toy_lib
       \<lparr>ciphertext = PBytes [226, 236], salt = PBytes [1, 2, 3], tag = PBytes [9],
        nonce = PBytes [4, 5], filename = PStr ''hello.txt''\<rparr> ''hello.txt'' world0 = Inr w' \<and>
      Utils_open_file toy_lib (''hello.txt'' @ ''.enc'') True w' =
        Inr (Pickled \<lparr>ciphertext = PBytes [226, 236], salt = PBytes [1, 2, 3], tag = PBytes [9],
        nonce = PBytes [4, 5], filename = PStr ''hello.txt''\<rparr>))"
proof -
  let ?cc = "\<lparr>ciphertext = PBytes [226, 236], salt = PBytes [1, 2, 3], tag = PBytes [9],
        nonce = PBytes [4, 5], filename = PStr ''hello.txt''\<rparr>"
  have h: "pickle_load toy_lib (pickle_dump toy_lib (PDict (CipherConfig_dict ?cc)) (- 1)) =
           Inr (PDict (CipherConfig_dict ?cc))"
    by (simp add: toy_lib_def toy_pickle_roundtrip CipherConfig_dict_def)
  have cw: "can_write world0 (''hello.txt'' @ ''.enc'')"
    by (simp add: can_write_def world0_def)
  from container_roundtrip [OF refl h, of "''hello.txt''" world0] cw
  obtain w' where s: "Utils_save_cc toy_lib ?cc ''hello.txt'' world0 = Inr w'"
    by blast
  with container_roundtrip [OF refl h, of "''hello.txt''" world0 w']
  have "Utils_open_file toy_lib (''hello.txt'' @ ''.enc'') True w' = Inr (Pickled ?cc)"
    by blast
  with s h cw show ?thesis by (auto simp: toy_lib_def)
qed

text \<open>
  C3, as the code has it. There is no \<open>try\<close> around a file: the first file that
  raises ends the batch with its exception (for encryption and for decryption). The files
  before it stay processed and stored (the files are those of the world the failing file
  started in), and nothing after it is visited, whatever follows.
\<close>

theorem batch_stops_at_first_failure:
  "(Security_getpass lib False w = (Inr ph, w0) \<and> encrypt_loop lib ph pre w0 = (Inr (), w1) \<and>
    encrypt_one lib ph f w1 = (Inl e, w2)
      \<longrightarrow> Cryptfile_encrypt_file lib (pre @ f # post) w = (Inl e, w2) \<and> fs w2 = fs w1) \<and>
   (Security_getpass lib True w = (Inr ph, w0) \<and> decrypt_loop lib ph pre w0 = (Inr (), w1) \<and>
    decrypt_one lib ph f w1 = (Inl e, w2)
      \<longrightarrow> Cryptfile_decrypt_file lib (pre @ f # post) w = (Inl e, w2) \<and> fs w2 = fs w1)"
proof (intro conjI impI)
  assume a: "Security_getpass lib False w = (Inr ph, w0) \<and> encrypt_loop lib ph pre w0 = (Inr (), w1) \<and>
    encrypt_one lib ph f w1 = (Inl e, w2)"
  then have "encrypt_loop lib ph (pre @ f # post) w0 = (Inl e, w2)"
    by (simp add: encrypt_loop_append [of lib ph pre w0 "()" w1])
  with a show "Cryptfile_encrypt_file lib (pre @ f # post) w = (Inl e, w2)"
    by (simp add: Cryptfile_encrypt_file_def)
  from a show "fs w2 = fs w1" using encrypt_one_fail by blast
next
  assume a: "Security_getpass lib True w = (Inr ph, w0) \<and> decrypt_loop lib ph pre w0 = (Inr (), w1) \<and>
    decrypt_one lib ph f w1 = (Inl e, w2)"
  then have "decrypt_loop lib ph (pre @ f # post) w0 = (Inl e, w2)"
    by (simp add: decrypt_loop_append [of lib ph pre w0 "()" w1])
  with a show "Cryptfile_decrypt_file lib (pre @ f # post) w = (Inl e, w2)"
    by (simp add: Cryptfile_decrypt_file_def)
  from a show "fs w2 = fs w1" using decrypt_one_fail by blast
qed

theorem batch_stops_at_first_failure_witness:
  "Cryptfile_encrypt_file toy_lib ([''hello.txt''] @ ''missing.txt'' # [''later.txt'']) hello_world =
     (Inl FileNotFoundError, hello_encrypted) \<and>
   fs hello_encrypted ''hello.txt.enc'' \<noteq> None \<and>
   Cryptfile_decrypt_file toy_lib ([''hello.txt.enc''] @ ''missing.enc'' # [''later.enc''])
       (hello_encrypted\<lparr>stdin := [''correct'']\<rparr>) =
     (Inl FileNotFoundError, hello_decrypted) \<and>
   fs hello_decrypted ''hello.txt'' = Some [104, 105]"
proof -
  have e1: "encrypt_one toy_lib hello_hash ''missing.txt'' hello_encrypted =
          (Inl FileNotFoundError, hello_encrypted)"
    using hello_encrypt_file by (auto simp: encrypt_one_cases)
  from hello_decrypt_loop obtain w' where
    dl: "decrypt_loop toy_lib hello_hash [''hello.txt.enc''] (hello_encrypted\<lparr>stdin := []\<rparr>) =
           (Inr (), w')"
    and w': "fs w' = (fs hello_encrypted)(''hello.txt'' \<mapsto> [104, 105])"
    by blast
  have g: "Security_getpass toy_lib True (hello_encrypted\<lparr>stdin := [''correct'']\<rparr>) =
      (Inr hello_hash, hello_encrypted\<lparr>stdin := []\<rparr>)"
    by (simp add: getpass_once [of _ "''correct''" "[]"] hello_hash_def toy_lib_def)
  have hd: "hello_decrypted = w'"
    using dl g by (simp add: hello_decrypted_def Cryptfile_decrypt_file_def)
  have "fs w' ''missing.enc'' = None"
    using w' hello_encrypt_file by auto
  then have d1: "decrypt_one toy_lib hello_hash ''missing.enc'' w' = (Inl FileNotFoundError, w')"
    by (simp add: decrypt_one_cases Utils_open_file_def read_file_def)
  from batch_stops_at_first_failure [where lib = toy_lib and w = hello_world and ph = hello_hash
      and ?w0.0 = "hello_world\<lparr>stdin := []\<rparr>" and pre = "[''hello.txt'']"
      and ?w1.0 = hello_encrypted and f = "''missing.txt''" and e = FileNotFoundError
      and ?w2.0 = hello_encrypted and post = "[''later.txt'']"]
    hello_getpass hello_encrypt_loop e1
  have A: "Cryptfile_encrypt_file toy_lib ([''hello.txt''] @ ''missing.txt'' # [''later.txt'']) hello_world =
     (Inl FileNotFoundError, hello_encrypted)"
    by blast
  from batch_stops_at_first_failure [where lib = toy_lib
      and w = "hello_encrypted\<lparr>stdin := [''correct'']\<rparr>" and ph = hello_hash
      and ?w0.0 = "hello_encrypted\<lparr>stdin := []\<rparr>" and pre = "[''hello.txt.enc'']"
      and ?w1.0 = w' and f = "''missing.enc''" and e = FileNotFoundError
      and ?w2.0 = w' and post = "[''later.enc'']"]
    g dl d1
  have B: "Cryptfile_decrypt_file toy_lib ([''hello.txt.enc''] @ ''missing.enc'' # [''later.enc''])
       (hello_encrypted\<lparr>stdin := [''correct'']\<rparr>) = (Inl FileNotFoundError, w')"
    by blast
  from A B hd w' hello_encrypt_file show ?thesis by auto
qed

text \<open>
  C3 as stated fails: with the batch \<open>missing.txt, hello.txt\<close> the
  \<open>FileNotFoundError\<close> of the first file is the outcome of the whole call and
  \<open>hello.txt\<close>, which encrypts fine on its own, is never encrypted.
\<close>

theorem batch_abort_counterexample:
  "fst (Cryptfile_encrypt_file toy_lib [''missing.txt'', ''hello.txt''] hello_world) =
     Inl FileNotFoundError \<and>
   fs (snd (Cryptfile_encrypt_file toy_lib [''missing.txt'', ''hello.txt''] hello_world))
     ''hello.txt.enc'' = None \<and>
   fs (snd (Cryptfile_encrypt_file toy_lib [''hello.txt''] hello_world)) ''hello.txt.enc'' \<noteq> None"
proof -
  have "encrypt_one toy_lib hello_hash ''missing.txt'' (hello_world\<lparr>stdin := []\<rparr>) =
          (Inl FileNotFoundError, hello_world\<lparr>stdin := []\<rparr>)"
    by (simp add: encrypt_one_cases hello_world_def)
  then have "Cryptfile_encrypt_file toy_lib [''missing.txt'', ''hello.txt''] hello_world =
          (Inl FileNotFoundError, hello_world\<lparr>stdin := []\<rparr>)"
    by (simp add: Cryptfile_encrypt_file_def hello_getpass)
  moreover have "fs (hello_world\<lparr>stdin := []\<rparr>) ''hello.txt.enc'' = None"
    by (simp add: hello_world_def world0_def)
  moreover have "fs hello_encrypted ''hello.txt.enc'' \<noteq> None"
    using hello_encrypt_file by auto
  ultimately show ?thesis by (simp add: hello_encrypted_def)
qed

text \<open>
  C4 at the failing input: the artifact of \<open>hello.txt\<close> renamed to \<open>secret.bin\<close>
  (no \<open>.enc\<close> suffix). Decryption succeeds, writes the plaintext to the name stored in
  the container, \<open>hello.txt\<close>, over the file that is there, creates no
  \<open>secret.bin.cryptfile\<close> and prints the two progress lines only; \<open>Utils._rename\<close>,
  which computes the fallback name and prints the warning, is never called.
\<close>

theorem decrypt_ignores_artifact_name:
  "fst (Cryptfile_decrypt_file toy_lib [''secret.bin''] hello_renamed) = Inr () \<and>
   fs (snd (Cryptfile_decrypt_file toy_lib [''secret.bin''] hello_renamed)) ''hello.txt'' =
     Some [104, 105] \<and>
   fs (snd (Cryptfile_decrypt_file toy_lib [''secret.bin''] hello_renamed)) ''secret.bin.cryptfile'' =
     None \<and>
   stdout (snd (Cryptfile_decrypt_file toy_lib [''secret.bin''] hello_renamed)) =
     stdout hello_renamed @ [msg_decrypting ''secret.bin'', msg_decrypted ''secret.bin''] \<and>
   fst (Utils_rename ''secret.bin'' hello_renamed) = ''secret.bin.cryptfile''"
proof -
  from hello_encrypt_file obtain c s t n where
    f: "fs hello_encrypted = [''hello.txt'' \<mapsto> [104, 105],
        ''hello.txt.enc'' \<mapsto> toy_pickle_dump (PDict (CipherConfig_dict (stored c s t n ''hello.txt''))) (- 1)]"
    and d: "\<forall>w''. fst (Security_decrypt toy_lib (Security_init hello_hash) (stored c s t n ''hello.txt'') w'') =
        Inr [104, 105]"
    by blast
  let ?w = "hello_renamed\<lparr>stdin := []\<rparr>"
  have g: "Security_getpass toy_lib True hello_renamed = (Inr hello_hash, ?w)"
    by (simp add: getpass_once [of _ "''correct''" "[]"] hello_hash_def toy_lib_def hello_renamed_def)
  have f': "fs ?w ''secret.bin'' =
      Some (pickle_dump toy_lib (PDict (CipherConfig_dict (stored c s t n ''hello.txt''))) (- 1))"
    using f by (simp add: toy_lib_def hello_renamed_def)
  have n: "filename (stored c s t n ''hello.txt'') = PStr ''hello.txt''"
    by (simp add: stored_def)
  have cw: "can_write ?w ''hello.txt''"
    using hello_can_write(1) by (simp add: hello_renamed_def)
  from decrypt_one_ok [OF f' toy_pickle_stored d n cw]
  obtain w' where o: "decrypt_one toy_lib hello_hash ''secret.bin'' ?w = (Inr (), w')"
    and w': "fs w' = (fs ?w)(''hello.txt'' \<mapsto> [104, 105])"
      "stdout w' = stdout ?w @ [msg_decrypting ''secret.bin'', msg_decrypted ''secret.bin'']"
    by blast
  have r: "Cryptfile_decrypt_file toy_lib [''secret.bin''] hello_renamed = (Inr (), w')"
    using g o by (simp add: Cryptfile_decrypt_file_def)
  have "fs w' ''secret.bin.cryptfile'' = None"
    using w'(1) by (simp add: hello_renamed_def)
  moreover have "fst (Utils_rename ''secret.bin'' hello_renamed) = ''secret.bin.cryptfile''"
    by (simp add: Utils_rename_def endswith_def)
  ultimately show ?thesis using r w' by simp
qed

text \<open>
  C5, as the code has it. For a file holding \<open>bs\<close>, \<open>open_file\<close> with
  \<open>pickled=True\<close> raises whatever \<open>pickle.load\<close> raises on \<open>bs\<close>; raises
  \<open>TypeError\<close> when the loaded object is not a dict whose keys are among the five field
  names and include \<open>ciphertext\<close>, \<open>salt\<close>, \<open>tag\<close> and \<open>nonce\<close>; and otherwise
  returns the container of the loaded values, \<open>filename\<close> defaulting to the empty
  string, with no check of their types.
\<close>

theorem open_file_pickled_outcome:
  assumes "fs w file = Some bs"
  shows "Utils_open_file lib file True w =
     (case pickle_load lib bs of
        Inl e \<Rightarrow> Inl e
      | Inr (PDict kvs) \<Rightarrow>
          if set required_fields \<subseteq> fst ` set kvs \<and>
             fst ` set kvs \<subseteq> set required_fields \<union> {PStr ''filename''}
          then Inr (Pickled
                 \<lparr>ciphertext = the (map_of kvs (PStr ''ciphertext'')),
                  salt = the (map_of kvs (PStr ''salt'')),
                  tag = the (map_of kvs (PStr ''tag'')),
                  nonce = the (map_of kvs (PStr ''nonce'')),
                  filename = (case map_of kvs (PStr ''filename'') of
                                None \<Rightarrow> PStr [] | Some v \<Rightarrow> v)\<rparr>)
          else Inl TypeError
      | Inr _ \<Rightarrow> Inl TypeError)"
proof (cases "pickle_load lib bs")
  case (Inl e)
  with assms show ?thesis by (simp add: Utils_open_file_def read_file_def)
next
  case (Inr v)
  show ?thesis
  proof (cases v)
    case (PDict kvs)
    show ?thesis
    proof (cases "accepts_kwargs kvs")
      case True
      then have "PStr ''ciphertext'' \<in> fst ` set kvs" "PStr ''salt'' \<in> fst ` set kvs"
        "PStr ''tag'' \<in> fst ` set kvs" "PStr ''nonce'' \<in> fst ` set kvs"
        by (auto simp: accepts_kwargs_iff required_fields_def)
      then have "CipherConfig_kwargs (PDict kvs) =
          Inr \<lparr>ciphertext = the (map_of kvs (PStr ''ciphertext'')),
                  salt = the (map_of kvs (PStr ''salt'')),
                  tag = the (map_of kvs (PStr ''tag'')),
                  nonce = the (map_of kvs (PStr ''nonce'')),
                  filename = (case map_of kvs (PStr ''filename'') of
                                None \<Rightarrow> PStr [] | Some v \<Rightarrow> v)\<rparr>"
        using True
        by (simp add: CipherConfig_kwargs_def the_default_map_of
            the_default_case [of "PStr []" "map_of kvs (PStr ''filename'')"])
      with assms Inr PDict True show ?thesis
        by (simp add: Utils_open_file_def read_file_def accepts_kwargs_iff)
    next
      case False
      then have "\<not> (set required_fields \<subseteq> fst ` set kvs \<and>
             fst ` set kvs \<subseteq> set required_fields \<union> {PStr ''filename''})"
        using accepts_kwargs_iff by blast
      with assms Inr PDict False show ?thesis
        by (simp add: Utils_open_file_def read_file_def CipherConfig_kwargs_def)
    qed
  qed (insert assms Inr, simp_all add: Utils_open_file_def read_file_def CipherConfig_kwargs_def)
qed

theorem open_file_pickled_outcome_witness:
  "fs (world0\<lparr>fs := [''empty.enc'' \<mapsto> []]\<rparr>) ''empty.enc'' = Some [] \<and>
   Utils_open_file toy_lib ''empty.enc'' True (world0\<lparr>fs := [''empty.enc'' \<mapsto> []]\<rparr>) = Inl EOFError"
  using open_file_pickled_outcome [of "world0\<lparr>fs := [''empty.enc'' \<mapsto> []]\<rparr>" "''empty.enc''" "[]" toy_lib]
  by (simp add: toy_lib_def toy_pickle_load_def)

text \<open>
  C5 as stated fails: a stream whose dict has a \<open>str\<close> for the ciphertext and
  \<open>None\<close> for the salt and the filename is not rejected; \<open>open_file\<close> returns the
  container with these values.
\<close>

theorem mistyped_container_accepted:
  "Utils_open_file toy_lib ''x.enc'' True
     (world0\<lparr>fs := [''x.enc'' \<mapsto> toy_pickle_dump (PDict
        [(PStr ''ciphertext'', PStr ''text''), (PStr ''salt'', PNone), (PStr ''tag'', PBytes [1]),
         (PStr ''nonce'', PBytes [2]), (PStr ''filename'', PNone)]) (- 1)]\<rparr>) =
   Inr (Pickled \<lparr>ciphertext = PStr ''text'', salt = PNone, tag = PBytes [1], nonce = PBytes [2],
                 filename = PNone\<rparr>)"
  by (simp add: Utils_open_file_def read_file_def toy_lib_def toy_pickle_roundtrip
      CipherConfig_kwargs_def accepts_kwargs_def required_fields_def)



text \<open>
  C7. Passphrase confirmation: encryption reads the passphrase twice and compares the
  SHA-256 hex digests of the two entries. When they differ, \<open>encrypt_file\<close> ends with
  \<open>SystemExit 1\<close> having run no key derivation and changed no file; when the two entries
  are the same, \<open>getpass\<close> returns the digest. Decryption reads one entry only, with no
  confirmation, and nothing else of the input.
\<close>

theorem passphrase_confirmation_gate:
  "(stdin w = s1 # s2 # rest \<and>
    sha256_hexdigest lib (encode_utf8 s1) \<noteq> sha256_hexdigest lib (encode_utf8 s2) \<longrightarrow>
      fst (Cryptfile_encrypt_file lib files w) = Inl (SystemExit 1) \<and>
      fs (snd (Cryptfile_encrypt_file lib files w)) = fs w \<and>
      kdf_calls (snd (Cryptfile_encrypt_file lib files w)) = kdf_calls w \<and>
      stdin (snd (Cryptfile_encrypt_file lib files w)) = rest) \<and>
   (stdin w = s1 # s1 # rest \<longrightarrow>
      Security_getpass lib False w =
        (Inr (encode_utf8 (sha256_hexdigest lib (encode_utf8 s1))), w\<lparr>stdin := rest\<rparr>)) \<and>
   (stdin w = s1 # rest \<longrightarrow>
      Security_getpass lib True w =
        (Inr (encode_utf8 (sha256_hexdigest lib (encode_utf8 s1))), w\<lparr>stdin := rest\<rparr>) \<and>
      stdin (snd (Cryptfile_decrypt_file lib files w)) = rest)"
proof (intro conjI impI)
  assume a: "stdin w = s1 # s2 # rest \<and>
    sha256_hexdigest lib (encode_utf8 s1) \<noteq> sha256_hexdigest lib (encode_utf8 s2)"
  then have "Cryptfile_encrypt_file lib files w =
      (Inl (SystemExit 1), print (''>>> Incorrect Password ! <<<'' @ [CHR 0x0A]) (w\<lparr>stdin := rest\<rparr>))"
    by (simp add: Cryptfile_encrypt_file_def getpass_twice [of w s1 s2 rest])
  then show "fst (Cryptfile_encrypt_file lib files w) = Inl (SystemExit 1)"
    "fs (snd (Cryptfile_encrypt_file lib files w)) = fs w"
    "kdf_calls (snd (Cryptfile_encrypt_file lib files w)) = kdf_calls w"
    "stdin (snd (Cryptfile_encrypt_file lib files w)) = rest"
    by simp_all
next
  assume "stdin w = s1 # s1 # rest"
  then show "Security_getpass lib False w =
        (Inr (encode_utf8 (sha256_hexdigest lib (encode_utf8 s1))), w\<lparr>stdin := rest\<rparr>)"
    by (simp add: getpass_twice [of w s1 s1 rest])
next
  assume a: "stdin w = s1 # rest"
  then show g: "Security_getpass lib True w =
        (Inr (encode_utf8 (sha256_hexdigest lib (encode_utf8 s1))), w\<lparr>stdin := rest\<rparr>)"
    by (rule getpass_once)
  show "stdin (snd (Cryptfile_decrypt_file lib files w)) = rest"
    by (simp add: Cryptfile_decrypt_file_def g decrypt_loop_stdin)
qed

theorem passphrase_confirmation_gate_witness:
  "fst (Cryptfile_encrypt_file toy_lib [''hello.txt''] (hello_world\<lparr>stdin := [''correct'', ''wrong'']\<rparr>)) =
     Inl (SystemExit 1) \<and>
   fs (snd (Cryptfile_encrypt_file toy_lib [''hello.txt''] (hello_world\<lparr>stdin := [''correct'', ''wrong'']\<rparr>)))
     ''hello.txt.enc'' = None \<and>
   kdf_calls (snd (Cryptfile_encrypt_file toy_lib [''hello.txt''] (hello_world\<lparr>stdin := [''correct'', ''wrong'']\<rparr>))) = 0 \<and>
   Security_getpass toy_lib False hello_world = (Inr hello_hash, hello_world\<lparr>stdin := []\<rparr>) \<and>
   stdin (snd (Cryptfile_decrypt_file toy_lib [''hello.txt.enc''] (hello_encrypted\<lparr>stdin := [''correct'', ''unused'']\<rparr>))) =
     [''unused'']"
proof -
  let ?w = "hello_world\<lparr>stdin := [''correct'', ''wrong'']\<rparr>"
  have ne: "sha256_hexdigest toy_lib (encode_utf8 ''correct'') \<noteq>
            sha256_hexdigest toy_lib (encode_utf8 ''wrong'')"
    by (simp add: toy_lib_def toy_sha256_hexdigest_def encode_utf8_simps)
  have s: "stdin ?w = ''correct'' # ''wrong'' # []" by simp
  from passphrase_confirmation_gate [where w = ?w and ?s1.0 = "''correct''" and ?s2.0 = "''wrong''"
      and rest = "[]" and lib = toy_lib and files = "[''hello.txt'']"] s ne
  have A: "fst (Cryptfile_encrypt_file toy_lib [''hello.txt''] ?w) = Inl (SystemExit 1)"
    "fs (snd (Cryptfile_encrypt_file toy_lib [''hello.txt''] ?w)) = fs ?w"
    "kdf_calls (snd (Cryptfile_encrypt_file toy_lib [''hello.txt''] ?w)) = kdf_calls ?w"
    by blast+
  have s2: "stdin hello_world = ''correct'' # ''correct'' # []" by (simp add: hello_world_def)
  from passphrase_confirmation_gate [where w = hello_world and ?s1.0 = "''correct''"
      and rest = "[]" and lib = toy_lib] s2
  have B: "Security_getpass toy_lib False hello_world = (Inr hello_hash, hello_world\<lparr>stdin := []\<rparr>)"
    by (simp add: hello_hash_def toy_lib_def)
  let ?v = "hello_encrypted\<lparr>stdin := [''correct'', ''unused'']\<rparr>"
  have s3: "stdin ?v = ''correct'' # [''unused'']" by simp
  from passphrase_confirmation_gate [where w = ?v and ?s1.0 = "''correct''"
      and rest = "[''unused'']" and lib = toy_lib and files = "[''hello.txt.enc'']"] s3
  have C: "stdin (snd (Cryptfile_decrypt_file toy_lib [''hello.txt.enc''] ?v)) = [''unused'']"
    by blast
  from A B C show ?thesis by (simp add: hello_world_def world0_def)
qed

text \<open>
  C8. Key derivation is deterministic: the key \<open>_kdf_scrypt\<close> returns does not depend
  on the world it runs in; it is scrypt of the string forms of the passphrase hash and the
  salt with the fixed parameters \<open>key_len = 32\<close>, \<open>N = 2^20\<close>, \<open>r = 8\<close>, \<open>p = 1\<close>;
  it has 32 bytes (scrypt returning the length it is asked for). And the two directions
  meet: when \<open>Security.encrypt\<close> returns a container, after one key derivation, the
  ciphertext and the tag it stores are what the cipher sealed under the very key that
  \<open>_kdf_scrypt\<close> derives, in any world, from the salt stored beside them, and
  \<open>Security.decrypt\<close> opens the container under that key. Encryption does return a
  container when the key derivation and the sealing succeed.
\<close>

theorem kdf_deterministic:
  assumes "scrypt_length lib"
  shows "fst (kdf_scrypt lib (Security_init H) slt w) = fst (kdf_scrypt lib (Security_init H) slt w') \<and>
         fst (kdf_scrypt lib (Security_init H) slt w) =
           scrypt lib (PStr (py_str lib (PBytes H))) (PStr (py_str lib slt)) 32 (2 ^ 20) 8 1 \<and>
         (fst (kdf_scrypt lib (Security_init H) slt w) = Inr k \<longrightarrow> length k = 32) \<and>
         (Security_encrypt lib (Security_init H) P w = (Inr cc, w1) \<longrightarrow>
            (\<exists>key ct tg.
               fst (kdf_scrypt lib (Security_init H) (salt cc) w') = Inr key \<and> length key = 32 \<and>
               gcm_encrypt_and_digest lib key (drawn_nonce w) P = Inr (ct, tg) \<and>
               ciphertext cc = PBytes ct \<and> tag cc = PBytes tg \<and>
               nonce cc = PBytes (drawn_nonce w) \<and> salt cc = PBytes (drawn_salt w) \<and>
               kdf_calls w1 = Suc (kdf_calls w) \<and>
               Security_decrypt lib (Security_init H) cc w' =
                 (gcm_decrypt_and_verify lib key (nonce cc) (ciphertext cc) (tag cc),
                  w'\<lparr>kdf_calls := Suc (kdf_calls w')\<rparr>))) \<and>
         (kdf_total lib \<and> aead_correct lib \<longrightarrow>
            (\<exists>cc' w1'. Security_encrypt lib (Security_init H) P w = (Inr cc', w1')))"
proof (intro conjI impI)
  show "fst (kdf_scrypt lib (Security_init H) slt w) = fst (kdf_scrypt lib (Security_init H) slt w')"
    by (simp add: kdf_scrypt_eq)
  show "fst (kdf_scrypt lib (Security_init H) slt w) =
           scrypt lib (PStr (py_str lib (PBytes H))) (PStr (py_str lib slt)) 32 (2 ^ 20) 8 1"
    by (rule kdf_scrypt_eq)
next
  assume "fst (kdf_scrypt lib (Security_init H) slt w) = Inr k"
  then have "scrypt lib (PStr (py_str lib (PBytes H))) (PStr (py_str lib slt)) 32 (2 ^ 20) 8 1 = Inr k"
    by (simp add: kdf_scrypt_eq)
  with assms show "length k = 32" unfolding scrypt_length_def by blast
next
  assume "Security_encrypt lib (Security_init H) P w = (Inr cc, w1)"
  from Security_encrypt_Inr [OF this]
  obtain key ct tg where
    k: "scrypt lib (PStr (py_str lib (PBytes H))) (PStr (py_str lib (PBytes (drawn_salt w))))
             32 (2 ^ 20) 8 1 = Inr key"
    and e: "gcm_encrypt_and_digest lib key (drawn_nonce w) P = Inr (ct, tg)"
    and c: "cc = CipherConfig_init (PBytes ct) (PBytes (drawn_salt w)) (PBytes tg)
                  (PBytes (drawn_nonce w))"
    and n: "kdf_calls w1 = Suc (kdf_calls w)"
    by blast
  from k assms have l: "length key = 32" unfolding scrypt_length_def by blast
  have d: "Security_decrypt lib (Security_init H) cc w' =
      (fst (Security_decrypt lib (Security_init H) cc w'), w'\<lparr>kdf_calls := Suc (kdf_calls w')\<rparr>)"
    using Security_decrypt_frame [of lib "Security_init H" cc w'] by (simp add: prod_eq_iff)
  have "fst (Security_decrypt lib (Security_init H) cc w') =
      gcm_decrypt_and_verify lib key (nonce cc) (ciphertext cc) (tag cc)"
    using k c by (simp add: Security_decrypt_eq CipherConfig_init_def)
  with d have d': "Security_decrypt lib (Security_init H) cc w' =
                 (gcm_decrypt_and_verify lib key (nonce cc) (ciphertext cc) (tag cc),
                  w'\<lparr>kdf_calls := Suc (kdf_calls w')\<rparr>)"
    by simp
  have "fst (kdf_scrypt lib (Security_init H) (salt cc) w') = Inr key"
    using k c by (simp add: kdf_scrypt_eq CipherConfig_init_def)
  with l e c n d' show "\<exists>key ct tg.
               fst (kdf_scrypt lib (Security_init H) (salt cc) w') = Inr key \<and> length key = 32 \<and>
               gcm_encrypt_and_digest lib key (drawn_nonce w) P = Inr (ct, tg) \<and>
               ciphertext cc = PBytes ct \<and> tag cc = PBytes tg \<and>
               nonce cc = PBytes (drawn_nonce w) \<and> salt cc = PBytes (drawn_salt w) \<and>
               kdf_calls w1 = Suc (kdf_calls w) \<and>
               Security_decrypt lib (Security_init H) cc w' =
                 (gcm_decrypt_and_verify lib key (nonce cc) (ciphertext cc) (tag cc),
                  w'\<lparr>kdf_calls := Suc (kdf_calls w')\<rparr>)"
    by (intro exI [of _ key] exI [of _ ct] exI [of _ tg]) (simp add: CipherConfig_init_def)
next
  assume "kdf_total lib \<and> aead_correct lib"
  then show "\<exists>cc' w1'. Security_encrypt lib (Security_init H) P w = (Inr cc', w1')"
    using Security_encrypt_ok [of lib H w P] by blast
qed

theorem kdf_deterministic_witness:
  "scrypt_length toy_lib \<and>
   (\<exists>k. fst (kdf_scrypt toy_lib (Security_init [1, 2]) (PBytes [3]) world0) = Inr k \<and>
        fst (kdf_scrypt toy_lib (Security_init [1, 2]) (PBytes [3]) hello_world) = Inr k \<and>
        length k = 32) \<and>
   (\<exists>cc w1 key ct tg.
        Security_encrypt toy_lib (Security_init [1, 2]) [104, 105] world0 = (Inr cc, w1) \<and>
        fst (kdf_scrypt toy_lib (Security_init [1, 2]) (salt cc) hello_world) = Inr key \<and>
        gcm_encrypt_and_digest toy_lib key (drawn_nonce world0) [104, 105] = Inr (ct, tg) \<and>
        ciphertext cc = PBytes ct \<and> tag cc = PBytes tg \<and>
        fst (Security_decrypt toy_lib (Security_init [1, 2]) cc hello_world) =
          gcm_decrypt_and_verify toy_lib key (nonce cc) (ciphertext cc) (tag cc))"
proof -
  obtain k where k: "fst (kdf_scrypt toy_lib (Security_init [1, 2]) (PBytes [3]) world0) = Inr k"
    by (simp add: kdf_scrypt_eq toy_scrypt_key)
  from Security_encrypt_ok [OF toy_kdf_total toy_aead_correct, of "[1, 2]" world0 "[104, 105]"]
  obtain cc w1 where e: "Security_encrypt toy_lib (Security_init [1, 2]) [104, 105] world0 = (Inr cc, w1)"
    by blast
  from kdf_deterministic [OF toy_scrypt_length, of "[1, 2]" "PBytes [3]" world0 hello_world k
      "[104, 105]" cc w1] k e
  have a: "fst (kdf_scrypt toy_lib (Security_init [1, 2]) (PBytes [3]) hello_world) = Inr k"
    and b: "length k = 32"
    and c: "\<exists>key ct tg.
               fst (kdf_scrypt toy_lib (Security_init [1, 2]) (salt cc) hello_world) = Inr key \<and>
               length key = 32 \<and>
               gcm_encrypt_and_digest toy_lib key (drawn_nonce world0) [104, 105] = Inr (ct, tg) \<and>
               ciphertext cc = PBytes ct \<and> tag cc = PBytes tg \<and>
               nonce cc = PBytes (drawn_nonce world0) \<and> salt cc = PBytes (drawn_salt world0) \<and>
               kdf_calls w1 = Suc (kdf_calls world0) \<and>
               Security_decrypt toy_lib (Security_init [1, 2]) cc hello_world =
                 (gcm_decrypt_and_verify toy_lib key (nonce cc) (ciphertext cc) (tag cc),
                  hello_world\<lparr>kdf_calls := Suc (kdf_calls hello_world)\<rparr>)"
    by simp_all
  from k a b have "\<exists>k. fst (kdf_scrypt toy_lib (Security_init [1, 2]) (PBytes [3]) world0) = Inr k \<and>
        fst (kdf_scrypt toy_lib (Security_init [1, 2]) (PBytes [3]) hello_world) = Inr k \<and>
        length k = 32"
    by blast
  moreover from c obtain key ct tg where
    "fst (kdf_scrypt toy_lib (Security_init [1, 2]) (salt cc) hello_world) = Inr key"
    "gcm_encrypt_and_digest toy_lib key (drawn_nonce world0) [104, 105] = Inr (ct, tg)"
    "ciphertext cc = PBytes ct" "tag cc = PBytes tg"
    "Security_decrypt toy_lib (Security_init [1, 2]) cc hello_world =
                 (gcm_decrypt_and_verify toy_lib key (nonce cc) (ciphertext cc) (tag cc),
                  hello_world\<lparr>kdf_calls := Suc (kdf_calls hello_world)\<rparr>)"
    by blast
  with e have "\<exists>cc w1 key ct tg.
        Security_encrypt toy_lib (Security_init [1, 2]) [104, 105] world0 = (Inr cc, w1) \<and>
        fst (kdf_scrypt toy_lib (Security_init [1, 2]) (salt cc) hello_world) = Inr key \<and>
        gcm_encrypt_and_digest toy_lib key (drawn_nonce world0) [104, 105] = Inr (ct, tg) \<and>
        ciphertext cc = PBytes ct \<and> tag cc = PBytes tg \<and>
        fst (Security_decrypt toy_lib (Security_init [1, 2]) cc hello_world) =
          gcm_decrypt_and_verify toy_lib key (nonce cc) (ciphertext cc) (tag cc)"
    by (intro exI [of _ cc] exI [of _ w1] exI [of _ key] exI [of _ ct] exI [of _ tg]) simp
  ultimately show ?thesis using toy_scrypt_length by blast
qed

text \<open>
  C9, as the code has it. Each encryption draws its salt as the next 32 bytes of the
  random tape, stores it in the container, and leaves the tape 48 bytes further (salt and
  nonce), so the bytes are drawn once. Two encryptions that draw distinct salts return
  containers with different salts. Nothing is said of the ciphertexts.
\<close>

theorem fresh_salt_per_encryption:
  "(Security_encrypt lib self P w1 = (Inr c1, w1') \<and> Security_encrypt lib self P w2 = (Inr c2, w2') \<and>
    drawn_salt w1 \<noteq> drawn_salt w2 \<longrightarrow> salt c1 \<noteq> salt c2) \<and>
   (Security_encrypt lib self P w1 = (Inr c1, w1') \<longrightarrow>
      salt c1 = PBytes (drawn_salt w1) \<and> drawn_salt w1 = map (rng w1) [0..<32] \<and>
      length (drawn_salt w1) = 32 \<and> rng w1' = (\<lambda>i. rng w1 (i + 48)))"
proof (intro conjI impI)
  assume "Security_encrypt lib self P w1 = (Inr c1, w1') \<and>
    Security_encrypt lib self P w2 = (Inr c2, w2') \<and> drawn_salt w1 \<noteq> drawn_salt w2"
  then show "salt c1 \<noteq> salt c2"
    using Security_encrypt_salt [of lib self P w1 c1 w1'] Security_encrypt_salt [of lib self P w2 c2 w2']
    by simp
next
  assume a: "Security_encrypt lib self P w1 = (Inr c1, w1')"
  then show "salt c1 = PBytes (drawn_salt w1)" "rng w1' = (\<lambda>i. rng w1 (i + 48))"
    using Security_encrypt_salt [of lib self P w1 c1 w1'] by simp_all
  show "drawn_salt w1 = map (rng w1) [0..<32]"
    by (simp add: drawn_salt_def get_random_bytes_def del: upt_rec_numeral)
  show "length (drawn_salt w1) = 32"
    by (simp add: drawn_salt_def length_get_random_bytes)
qed

theorem fresh_salt_per_encryption_witness:
  "drawn_salt world0 \<noteq> drawn_salt world1 \<and>
   (\<exists>c1 w1' c2 w2'.
      Security_encrypt toy_lib (Security_init [1, 2]) [104, 105] world0 = (Inr c1, w1') \<and>
      Security_encrypt toy_lib (Security_init [1, 2]) [104, 105] world1 = (Inr c2, w2') \<and>
      salt c1 \<noteq> salt c2 \<and> salt c1 = PBytes (drawn_salt world0) \<and>
      length (drawn_salt world0) = 32 \<and> rng w1' = (\<lambda>i. rng world0 (i + 48)))"
proof -
  from Security_encrypt_ok [OF toy_kdf_total toy_aead_correct, of "[1, 2]" world0 "[104, 105]"]
  obtain c1 w1' where e1: "Security_encrypt toy_lib (Security_init [1, 2]) [104, 105] world0 = (Inr c1, w1')"
    by blast
  from Security_encrypt_ok [OF toy_kdf_total toy_aead_correct, of "[1, 2]" world1 "[104, 105]"]
  obtain c2 w2' where e2: "Security_encrypt toy_lib (Security_init [1, 2]) [104, 105] world1 = (Inr c2, w2')"
    by blast
  from fresh_salt_per_encryption [of toy_lib "Security_init [1, 2]" "[104, 105]" world0 c1 w1'
      world1 c2 w2'] e1 e2 drawn_salts_differ
  show ?thesis by auto
qed

text \<open>
  C9 as stated fails on the ciphertext: encrypting the empty plaintext twice with
  distinct salts gives two containers with different salts and the same (empty)
  ciphertext, since the ciphertext has the length of the plaintext.
\<close>

theorem same_ciphertext_counterexample:
  "drawn_salt world0 \<noteq> drawn_salt world1 \<and>
   (case (fst (Security_encrypt toy_lib (Security_init [1, 2]) [] world0),
          fst (Security_encrypt toy_lib (Security_init [1, 2]) [] world1)) of
      (Inr c1, Inr c2) \<Rightarrow> salt c1 \<noteq> salt c2 \<and> ciphertext c1 = ciphertext c2
    | _ \<Rightarrow> False)"
proof -
  from encrypt_empty [OF toy_kdf_total toy_aead_correct, of "[1, 2]" world0]
  obtain c1 w1' where e1: "Security_encrypt toy_lib (Security_init [1, 2]) [] world0 = (Inr c1, w1')"
    "ciphertext c1 = PBytes []" "salt c1 = PBytes (drawn_salt world0)"
    by blast
  from encrypt_empty [OF toy_kdf_total toy_aead_correct, of "[1, 2]" world1]
  obtain c2 w2' where e2: "Security_encrypt toy_lib (Security_init [1, 2]) [] world1 = (Inr c2, w2')"
    "ciphertext c2 = PBytes []" "salt c2 = PBytes (drawn_salt world1)"
    by blast
  from e1 e2 drawn_salts_differ show ?thesis by simp
qed

text \<open>
  C10. The legacy \<open>decrypt\<close> of obsfile/security.py draws 32 random bytes and
  overwrites the variable holding them with the stored salt at once: what it returns (the
  plaintext or the exception) is the same for any two random tapes, and for any two worlds
  at all; only \<open>configs\<close> and \<open>key\<close> determine it.
\<close>

theorem obsfile_decrypt_ignores_randomness:
  "fst (obsfile_decrypt lib configs key w) = fst (obsfile_decrypt lib configs key w')"
  by (simp add: obsfile_decrypt_def get_random_bytes_def call_scrypt_def
      split: sum.splits prod.splits)

end
